theory Spec2Isabelle
  imports Complex_Main "HOL-Library.Sublist" "HOL-Library.Char_ord" "HOL-Library.Product_Lexorder"
begin

section \<open>Python strings\<close>

text \<open>
  A Python \<open>str\<close> is modelled as a \<^typ>\<open>string\<close>: a list of characters, one
  \<^typ>\<open>char\<close> per code point, so the model covers the strings whose code points lie
  in 0..255. The character classes below are those of Python 3 on that range:
  \<open>str.isspace\<close> (used by \<open>strip\<close>, \<open>split\<close> and the pattern \<open>\s\<close>), the
  pattern classes \<open>\d\<close> and \<open>\w\<close>, and \<open>str.lower\<close>.
  Python floats are modelled as exact \<^typ>\<open>real\<close> numbers.
\<close>

datatype py_error = ZeroDivisionError | ValueError | TypeError

definition is_space :: "char \<Rightarrow> bool" where
  "is_space c =
     ((CHR 0x09 \<le> c \<and> c \<le> CHR 0x0D) \<or> (CHR 0x1C \<le> c \<and> c \<le> CHR 0x20)
      \<or> c = CHR 0x85 \<or> c = CHR 0xA0)"

definition is_digit :: "char \<Rightarrow> bool" where
  "is_digit c = (CHR ''0'' \<le> c \<and> c \<le> CHR ''9'')"

definition is_upper_az :: "char \<Rightarrow> bool" where
  "is_upper_az c = (CHR ''A'' \<le> c \<and> c \<le> CHR ''Z'')"

definition is_lower_az :: "char \<Rightarrow> bool" where
  "is_lower_az c = (CHR ''a'' \<le> c \<and> c \<le> CHR ''z'')"

definition is_word :: "char \<Rightarrow> bool" where
  "is_word c =
     ((CHR ''0'' \<le> c \<and> c \<le> CHR ''9'') \<or> (CHR ''A'' \<le> c \<and> c \<le> CHR ''Z'') \<or> c = CHR ''_''
      \<or> (CHR ''a'' \<le> c \<and> c \<le> CHR ''z'') \<or> c = CHR 0xAA \<or> c = CHR 0xB2 \<or> c = CHR 0xB3
      \<or> c = CHR 0xB5 \<or> c = CHR 0xB9 \<or> c = CHR 0xBA \<or> (CHR 0xBC \<le> c \<and> c \<le> CHR 0xBE)
      \<or> (CHR 0xC0 \<le> c \<and> c \<le> CHR 0xD6) \<or> (CHR 0xD8 \<le> c \<and> c \<le> CHR 0xF6)
      \<or> CHR 0xF8 \<le> c)"

text \<open>
  \<open>str.lower\<close>: the cased characters of the range are A..Z and the Latin-1 capitals
  0xC0..0xD6 and 0xD8..0xDE; each is moved up by 32, which sets bit 5 of its code.
\<close>

definition is_upper :: "char \<Rightarrow> bool" where
  "is_upper c =
     ((CHR ''A'' \<le> c \<and> c \<le> CHR ''Z'') \<or> (CHR 0xC0 \<le> c \<and> c \<le> CHR 0xD6)
      \<or> (CHR 0xD8 \<le> c \<and> c \<le> CHR 0xDE))"

definition lower_char :: "char \<Rightarrow> char" where
  "lower_char c =
     (if is_upper c
      then (case c of Char b0 b1 b2 b3 b4 b5 b6 b7 \<Rightarrow> Char b0 b1 b2 b3 b4 True b6 b7)
      else c)"

definition py_lower :: "string \<Rightarrow> string" where
  "py_lower s = map lower_char s"

text \<open>\<open>sub in s\<close> and \<open>s.find(sub)\<close> (\<open>-1\<close> when absent).\<close>

fun py_in :: "string \<Rightarrow> string \<Rightarrow> bool" where
  "py_in sub [] = (sub = [])"
| "py_in sub (c # cs) = (prefix sub (c # cs) \<or> py_in sub cs)"

fun py_find_from :: "string \<Rightarrow> string \<Rightarrow> nat \<Rightarrow> int" where
  "py_find_from sub [] k = (if sub = [] then int k else - 1)"
| "py_find_from sub (c # cs) k = (if prefix sub (c # cs) then int k else py_find_from sub cs (Suc k))"

definition py_find :: "string \<Rightarrow> string \<Rightarrow> int" where
  "py_find s sub = py_find_from sub s 0"

text \<open>The slice \<open>s[k:]\<close>; a negative \<open>k\<close> counts from the end.\<close>

definition py_slice_from :: "string \<Rightarrow> int \<Rightarrow> string" where
  "py_slice_from s k = (if 0 \<le> k then drop (nat k) s else drop (nat (int (length s) + k)) s)"

definition py_strip :: "string \<Rightarrow> string" where
  "py_strip s = rev (dropWhile is_space (rev (dropWhile is_space s)))"

text \<open>\<open>s.split()\<close>: the maximal runs of non-whitespace characters.\<close>

fun py_split_acc :: "string \<Rightarrow> string \<Rightarrow> string list" where
  "py_split_acc w [] = (if w = [] then [] else [rev w])"
| "py_split_acc w (c # cs) =
     (if is_space c then (if w = [] then py_split_acc [] cs else rev w # py_split_acc [] cs)
      else py_split_acc (c # w) cs)"

definition py_split :: "string \<Rightarrow> string list" where
  "py_split s = py_split_acc [] s"

fun py_join :: "string \<Rightarrow> string list \<Rightarrow> string" where
  "py_join sep [] = []"
| "py_join sep [w] = w"
| "py_join sep (w # v # ws) = w @ sep @ py_join sep (v # ws)"

text \<open>\<open>s.replace(old, new)\<close> for a non-empty \<open>old\<close>: every occurrence, left to right.\<close>

function py_replace :: "string \<Rightarrow> string \<Rightarrow> string \<Rightarrow> string" where
  "py_replace [] old new = []"
| "py_replace (c # cs) old new =
     (if old \<noteq> [] \<and> prefix old (c # cs) then new @ py_replace (drop (length old) (c # cs)) old new
      else c # py_replace cs old new)"
  by pat_completeness auto
termination
  by (relation "measure (\<lambda>(s, old, new). length s)") (auto simp: neq_Nil_conv)

text \<open>
  \<open>int(s)\<close> and \<open>float(s)\<close> on the decimal forms the patterns of this program capture:
  a non-empty run of digits, for \<open>float\<close> optionally followed by a point and further
  digits. On any other string the model answers \<open>ValueError\<close> (Python accepts some
  further forms, such as a sign or an exponent; none is ever passed here).
\<close>

fun index_of :: "char \<Rightarrow> string \<Rightarrow> int" where
  "index_of c [] = 0"
| "index_of c (d # ds) = (if c = d then 0 else 1 + index_of c ds)"

definition digit_val :: "char \<Rightarrow> int" where
  "digit_val c = index_of c ''0123456789''"

definition digits_val :: "string \<Rightarrow> int" where
  "digits_val s = foldl (\<lambda>a c. 10 * a + digit_val c) 0 s"

definition py_int :: "string \<Rightarrow> py_error + int" where
  "py_int s = (if s \<noteq> [] \<and> list_all is_digit s then Inr (digits_val s) else Inl ValueError)"

definition py_float :: "string \<Rightarrow> py_error + real" where
  "py_float s =
     (let ip = takeWhile is_digit s; rest = dropWhile is_digit s in
      if ip = [] then Inl ValueError
      else if rest = [] then Inr (of_int (digits_val ip))
      else if hd rest = CHR ''.'' \<and> list_all is_digit (tl rest)
        then Inr (of_int (digits_val ip) + of_int (digits_val (tl rest)) / 10 ^ length (tl rest))
      else Inl ValueError)"

section \<open>Regular expressions\<close>

text \<open>
  The patterns of the program are written as terms of \<open>rx\<close> and run by a backtracking
  matcher. A matcher state is the character before the current position (\<open>None\<close> at
  the start of the text), the text still to be read, and the groups captured so far.
  \<open>rmatch r st\<close> lists, in the order in which Python's \<open>re\<close> tries them, the states in
  which \<open>r\<close> can finish when started in \<open>st\<close>. Every repetition in the patterns of
  this program is over a single character class: \<open>Star p\<close> is the greedy \<open>[p]*\<close> and
  \<open>LStar p\<close> the lazy \<open>[p]*?\<close>. \<open>Bol\<close>, \<open>Eol\<close> and \<open>Wb\<close> are \<open>^\<close>, \<open>$\<close>
  and \<open>\b\<close>.
\<close>

datatype rx =
    Cls "char \<Rightarrow> bool"
  | Eps
  | Seq rx rx
  | Alt rx rx
  | Star "char \<Rightarrow> bool"
  | LStar "char \<Rightarrow> bool"
  | Grp nat rx
  | Bol
  | Eol
  | Wb

type_synonym caps = "nat \<rightharpoonup> string"
type_synonym mstate = "char option \<times> string \<times> caps"

definition word_boundary :: "char option \<Rightarrow> string \<Rightarrow> bool" where
  "word_boundary prev s =
     ((case prev of None \<Rightarrow> False | Some x \<Rightarrow> is_word x)
      \<noteq> (case s of [] \<Rightarrow> False | x # xs \<Rightarrow> is_word x))"

fun star_greedy :: "(char \<Rightarrow> bool) \<Rightarrow> char option \<Rightarrow> string \<Rightarrow> (char option \<times> string) list" where
  "star_greedy p prev [] = [(prev, [])]"
| "star_greedy p prev (x # xs) =
     (if p x then star_greedy p (Some x) xs else []) @ [(prev, x # xs)]"

fun star_lazy :: "(char \<Rightarrow> bool) \<Rightarrow> char option \<Rightarrow> string \<Rightarrow> (char option \<times> string) list" where
  "star_lazy p prev [] = [(prev, [])]"
| "star_lazy p prev (x # xs) =
     (prev, x # xs) # (if p x then star_lazy p (Some x) xs else [])"

fun rmatch :: "rx \<Rightarrow> mstate \<Rightarrow> mstate list" where
  "rmatch (Cls p) (prev, s, c) =
     (case s of [] \<Rightarrow> [] | x # xs \<Rightarrow> if p x then [(Some x, xs, c)] else [])"
| "rmatch Eps st = [st]"
| "rmatch (Seq a b) st = concat (map (rmatch b) (rmatch a st))"
| "rmatch (Alt a b) st = rmatch a st @ rmatch b st"
| "rmatch (Star p) (prev, s, c) = map (\<lambda>(q, r). (q, r, c)) (star_greedy p prev s)"
| "rmatch (LStar p) (prev, s, c) = map (\<lambda>(q, r). (q, r, c)) (star_lazy p prev s)"
| "rmatch (Grp n a) (prev, s, c) =
     map (\<lambda>(q, r, c'). (q, r, c'(n \<mapsto> take (length s - length r) s))) (rmatch a (prev, s, c))"
| "rmatch Bol (prev, s, c) = (if prev = None then [(prev, s, c)] else [])"
| "rmatch Eol (prev, s, c) = (if s = [] \<or> s = [CHR 0x0A] then [(prev, s, c)] else [])"
| "rmatch Wb (prev, s, c) = (if word_boundary prev s then [(prev, s, c)] else [])"

text \<open>Pattern building blocks. \<open>ILit\<close> and \<open>IStr\<close> are literals under \<open>re.IGNORECASE\<close>.\<close>

definition Lit :: "char \<Rightarrow> rx" where
  "Lit c = Cls (\<lambda>d. d = c)"

definition ILit :: "char \<Rightarrow> rx" where
  "ILit c = Cls (\<lambda>d. lower_char d = lower_char c)"

definition Cat :: "rx list \<Rightarrow> rx" where
  "Cat rs = foldr Seq rs Eps"

definition Never :: rx where
  "Never = Cls (\<lambda>d. False)"

definition Alts :: "rx list \<Rightarrow> rx" where
  "Alts rs = foldr Alt rs Never"

definition Str :: "string \<Rightarrow> rx" where
  "Str s = Cat (map Lit s)"

definition IStr :: "string \<Rightarrow> rx" where
  "IStr s = Cat (map ILit s)"

definition Plus :: "(char \<Rightarrow> bool) \<Rightarrow> rx" where
  "Plus p = Seq (Cls p) (Star p)"

definition Opt :: "rx \<Rightarrow> rx" where
  "Opt a = Alt a Eps"


text \<open>The number of groups of a pattern (\<open>len(match.groups())\<close>).\<close>

fun ngroups :: "rx \<Rightarrow> nat" where
  "ngroups (Seq a b) = ngroups a + ngroups b"
| "ngroups (Alt a b) = ngroups a + ngroups b"
| "ngroups (Grp n a) = Suc (ngroups a)"
| "ngroups r = 0"

text \<open>
  A match object: the text before the match, the matched text, the text after it, the
  last character before the end of the match, and the groups.
  \<open>re.search\<close> takes the leftmost start position at which the pattern matches, and
  there the first match in backtracking order; \<open>re.match\<close> tries the start of the
  text only.
\<close>

record match =
  m_before :: string
  m_whole :: string
  m_after :: string
  m_prev :: "char option"
  m_caps :: caps

definition mk_match :: "string \<Rightarrow> string \<Rightarrow> mstate \<Rightarrow> match" where
  "mk_match acc s st =
     (case st of (q, r, c) \<Rightarrow>
        \<lparr>m_before = rev acc, m_whole = take (length s - length r) s, m_after = r,
         m_prev = q, m_caps = c\<rparr>)"

fun re_search_from :: "rx \<Rightarrow> string \<Rightarrow> char option \<Rightarrow> string \<Rightarrow> match option" where
  "re_search_from r acc prev [] =
     (case rmatch r (prev, [], Map.empty) of
        [] \<Rightarrow> None
      | st # sts \<Rightarrow> Some (mk_match acc [] st))"
| "re_search_from r acc prev (x # xs) =
     (case rmatch r (prev, x # xs, Map.empty) of
        [] \<Rightarrow> re_search_from r (x # acc) (Some x) xs
      | st # sts \<Rightarrow> Some (mk_match acc (x # xs) st))"

definition re_search :: "rx \<Rightarrow> string \<Rightarrow> match option" where
  "re_search r t = re_search_from r [] None t"

definition re_match :: "rx \<Rightarrow> string \<Rightarrow> match option" where
  "re_match r t =
     (case rmatch r (None, t, Map.empty) of
        [] \<Rightarrow> None
      | st # sts \<Rightarrow> Some (mk_match [] t st))"

text \<open>\<open>match.group(n)\<close> for \<open>n \<ge> 1\<close>; \<open>None\<close> for a group that took no part.\<close>

definition group :: "match \<Rightarrow> nat \<Rightarrow> string option" where
  "group m n = m_caps m n"

text \<open>
  \<open>re.sub(pattern, repl, s)\<close>: the non-overlapping matches from left to right, each
  replaced by the expanded template (\<open>\1\<close> is \<open>TGrp 1\<close>); after an empty match
  the scan moves one character on. \<open>re.findall\<close> for a pattern with one group
  lists that group over the same matches. The length tests always hold (a match
  ends inside the text it started in); they make the recursion visibly terminating.
\<close>

datatype tmpl = TLit string | TGrp nat

definition expand :: "tmpl list \<Rightarrow> match \<Rightarrow> string" where
  "expand ts m =
     concat (map (\<lambda>x. case x of TLit s \<Rightarrow> s
                               | TGrp n \<Rightarrow> (case group m n of None \<Rightarrow> [] | Some s \<Rightarrow> s)) ts)"

function re_sub_from :: "rx \<Rightarrow> tmpl list \<Rightarrow> char option \<Rightarrow> string \<Rightarrow> string" where
  "re_sub_from r ts prev s =
     (case re_search_from r [] prev s of
        None \<Rightarrow> s
      | Some m \<Rightarrow>
          m_before m @ expand ts m @
          (if m_whole m \<noteq> [] then
             (if length (m_after m) < length s then re_sub_from r ts (m_prev m) (m_after m) else [])
           else (case m_after m of
                   [] \<Rightarrow> []
                 | x # xs \<Rightarrow> if length xs < length s then x # re_sub_from r ts (Some x) xs else [])))"
  by pat_completeness auto
termination
  by (relation "measure (\<lambda>(r, ts, prev, s). length s)") auto

definition re_sub :: "rx \<Rightarrow> tmpl list \<Rightarrow> string \<Rightarrow> string" where
  "re_sub r ts t = re_sub_from r ts None t"



text \<open>
  The loop \<open>for pattern in patterns: match = re.search(pattern, s); if match: ...\<close>:
  the first pattern of the list that matches, with its match.
\<close>

fun first_search :: "rx list \<Rightarrow> string \<Rightarrow> (rx \<times> match) option" where
  "first_search [] s = None"
| "first_search (p # ps) s =
     (case re_search p s of Some m \<Rightarrow> Some (p, m) | None \<Rightarrow> first_search ps s)"

section \<open>Quantity and pack size (trolley\_scraper\_fixed.py)\<close>

definition units_rx :: rx where
  "units_rx = Alts [IStr ''g'', IStr ''kg'', IStr ''ml'', IStr ''l'', IStr ''oz'', IStr ''lb'']"

definition number_rx :: rx where
  "number_rx = Cat [Plus is_digit, Opt (Lit CHR ''.''), Star is_digit]"

definition multipack_patterns :: "rx list" where
  "multipack_patterns =
     [Cat [Grp 1 (Plus is_digit), Star is_space, ILit CHR ''x'', Star is_space, Grp 2 number_rx,
           Star is_space, Grp 3 units_rx],
      Cat [Grp 1 (Plus is_digit), Star is_space, IStr ''pack''],
      Cat [Grp 1 (Plus is_digit), Star is_space, IStr ''can'', Opt (ILit CHR ''s'')],
      Cat [Grp 1 (Plus is_digit), Star is_space, IStr ''bottle'', Opt (ILit CHR ''s'')],
      Cat [Grp 1 (Plus is_digit), Star is_space, IStr ''piece'', Opt (ILit CHR ''s'')],
      Cat [Grp 1 (Plus is_digit), Star is_space, IStr ''item'', Opt (ILit CHR ''s'')]]"

definition single_patterns :: "rx list" where
  "single_patterns =
     [Cat [Grp 1 number_rx, Star is_space, Grp 2 units_rx],
      Cat [Grp 1 number_rx, Star is_space, IStr ''pack''],
      Cat [Grp 1 number_rx, Star is_space, IStr ''can''],
      Cat [Grp 1 number_rx, Star is_space, IStr ''bottle'']]"

text \<open>
  \<open>_extract_quantity_and_pack_size\<close>: the pair (quantity, pack size). The conversions
  \<open>int(match.group(1))\<close> and \<open>float(match.group(..))\<close> raise on a string they do not
  accept, and on \<open>None\<close>.
\<close>

definition group_int :: "match \<Rightarrow> nat \<Rightarrow> py_error + int" where
  "group_int m n = (case group m n of None \<Rightarrow> Inl TypeError | Some s \<Rightarrow> py_int s)"

definition group_float :: "match \<Rightarrow> nat \<Rightarrow> py_error + real" where
  "group_float m n = (case group m n of None \<Rightarrow> Inl TypeError | Some s \<Rightarrow> py_float s)"

definition extract_quantity_and_pack_size :: "string \<Rightarrow> py_error + (real option \<times> int)" where
  "extract_quantity_and_pack_size product_name =
     (case first_search multipack_patterns product_name of
        Some (pattern, m) \<Rightarrow>
          (case group_int m 1 of
             Inl e \<Rightarrow> Inl e
           | Inr pack_size \<Rightarrow>
               if 1 < ngroups pattern \<and> group m 2 \<noteq> None \<and> group m 2 \<noteq> Some []
               then (case group_float m 2 of
                       Inl e \<Rightarrow> Inl e
                     | Inr quantity \<Rightarrow> Inr (Some quantity, pack_size))
               else Inr (None, pack_size))
      | None \<Rightarrow>
          (case first_search single_patterns product_name of
             Some (pattern, m) \<Rightarrow>
               (case group_float m 1 of
                  Inl e \<Rightarrow> Inl e
                | Inr quantity \<Rightarrow> Inr (Some quantity, 1))
           | None \<Rightarrow> Inr (None, 1)))"

definition py_div :: "real \<Rightarrow> real \<Rightarrow> py_error + real" where
  "py_div a b = (if b = 0 then Inl ZeroDivisionError else Inr (a / b))"

text \<open>\<open>_calculate_quantity_similarity\<close>.\<close>

definition quantity_bonus :: "real \<Rightarrow> real \<Rightarrow> py_error + real" where
  "quantity_bonus quantity1 quantity2 =
     (if quantity1 = quantity2 then Inr (3 / 10)
      else case py_div \<bar>quantity1 - quantity2\<bar> (max quantity1 quantity2) of
             Inl e \<Rightarrow> Inl e
           | Inr d \<Rightarrow> if d \<le> 1 / 10 then Inr (2 / 10)
                      else if d \<le> 2 / 10 then Inr (1 / 10)
                      else Inr (- (2 / 10)))"

definition calculate_quantity_similarity :: "string \<Rightarrow> string \<Rightarrow> py_error + real" where
  "calculate_quantity_similarity name1 name2 =
     (case extract_quantity_and_pack_size name1 of
        Inl e \<Rightarrow> Inl e
      | Inr (quantity1, pack_size1) \<Rightarrow>
     (case extract_quantity_and_pack_size name2 of
        Inl e \<Rightarrow> Inl e
      | Inr (quantity2, pack_size2) \<Rightarrow>
     (case (quantity1, quantity2) of
        (Some q1, Some q2) \<Rightarrow>
          if pack_size1 \<noteq> pack_size2 then Inr (- (5 / 10))
          else quantity_bonus q1 q2
      | _ \<Rightarrow> Inr 0)))"

section \<open>Multipack detection and name cleaning (trolley\_scraper\_fixed.py)\<close>

text \<open>\<open>_is_multipack\<close>.\<close>

definition is_multipack_patterns :: "rx list" where
  "is_multipack_patterns =
     [Cat [Plus is_digit, Star is_space, ILit CHR ''x'', Star is_space, Plus is_digit],
      Cat [Plus is_digit, Star is_space, IStr ''pack''],
      Cat [Plus is_digit, Star is_space, IStr ''can'', Opt (ILit CHR ''s'')],
      Cat [Plus is_digit, Star is_space, IStr ''bottle'', Opt (ILit CHR ''s'')],
      Cat [Plus is_digit, Star is_space, IStr ''piece'', Opt (ILit CHR ''s'')],
      Cat [Plus is_digit, Star is_space, IStr ''item'', Opt (ILit CHR ''s'')]]"

definition is_multipack :: "string \<Rightarrow> bool" where
  "is_multipack product_name =
     (if first_search is_multipack_patterns product_name \<noteq> None then True
      else if py_in ''family pack'' (py_lower product_name) then True
      else if py_in ''multipack'' (py_lower product_name) then True
      else False)"

text \<open>
  \<open>_clean_product_name_for_comparison\<close>. The quantity pattern is
  \<open>\b\d+\.?\d*\s*(g|kg|ml|l|oz|lb|pack|packs|pieces?|items?)\b\<close> under IGNORECASE.
\<close>

definition quantity_units_rx :: rx where
  "quantity_units_rx =
     Alts [IStr ''g'', IStr ''kg'', IStr ''ml'', IStr ''l'', IStr ''oz'', IStr ''lb'', IStr ''pack'',
           IStr ''packs'', Cat [IStr ''piece'', Opt (ILit CHR ''s'')],
           Cat [IStr ''item'', Opt (ILit CHR ''s'')]]"

definition clean_product_name_for_comparison :: "string \<Rightarrow> string" where
  "clean_product_name_for_comparison product_name =
     (if product_name = [] then []
      else
        let clean_name = re_sub (Cat [Wb, number_rx, Star is_space, Grp 1 quantity_units_rx, Wb]) []
                           product_name;
            clean_name = re_sub (Cls (\<lambda>c. \<not> is_word c \<and> \<not> is_space c \<and> c \<noteq> CHR ''-''))
                           [TLit '' ''] clean_name;
            clean_name = re_sub (Plus is_space) [TLit '' ''] clean_name
        in py_strip clean_name)"

section \<open>Brands (trolley\_scraper\_fixed.py)\<close>

definition known_brands :: "string list" where
  "known_brands =
     [''Dr. Oetker'', ''Dr Oetker'', ''Charlie Bigham's'', ''Ainsley Harriott'', ''Nojo Tahir'',
      ''Alfez'', ''Al-fez'', ''Al Fez'', ''ALFEZ'', ''Al'Fez'', ''Baxters'', ''Kelloggs'',
      ''Great Scot'', ''Colman's'', ''Daddies'', ''Marshalls'', ''Natures Fi'',
      ''Fray Bento'', ''Wagamama'', ''WAGAMAMA'', ''Coca Cola'', ''Coca-Cola'',
      ''Dr Pepper'', ''Ko-Lee'', ''Schwartz'', ''Heinz'', ''Koka'',
      ''Tesco'', ''ASDA'', ''Sainsburys'', ''Sainsbury'', ''Ocado'', ''Morrisons'',
      ''Co-op'', ''Coop'', ''Walkers'', ''Pepsi'', ''Fanta'', ''Sprite'', ''7UP'',
      ''Lay's'', ''Pringles'', ''Doritos'', ''Oetker'']"

definition common_words :: "string list" where
  "common_words =
   [
    ''moroccan'', ''italian'', ''french'', ''spanish'', ''greek'', ''indian'', ''chinese'',
    ''japanese'', ''thai'', ''mexican'', ''mediterranean'', ''middle'', ''eastern'',
    ''western'', ''northern'', ''southern'', ''organic'', ''natural'', ''fresh'', ''premium'',
    ''deluxe'', ''classic'', ''traditional'', ''modern'', ''authentic'', ''original'',
    ''special'', ''extra'', ''super'', ''mega'', ''mini'', ''small'', ''large'', ''big'',
    ''tiny'', ''giant'', ''family'', ''single'', ''double'', ''triple'', ''multi'', ''mixed'',
    ''assorted'', ''variety'', ''selection'', ''collection'', ''range'', ''series'', ''line'',
    ''brand'', ''product'', ''food'', ''drink'', ''beverage'', ''snack'', ''meal'', ''dish'',
    ''recipe'', ''style'', ''flavor'', ''flavour'', ''taste'', ''aroma'', ''scent'',
    ''fragrance'', ''spice'', ''herb'', ''seasoning'', ''sauce'', ''dressing'', ''dip'',
    ''spread'', ''paste'', ''puree'', ''jam'', ''jelly'', ''marmalade'', ''syrup'', ''honey'',
    ''sugar'', ''salt'', ''pepper'', ''oil'', ''vinegar'', ''juice'', ''water'', ''milk'',
    ''cream'', ''cheese'', ''yogurt'', ''yoghurt'', ''butter'', ''bread'', ''cake'', ''cookie'',
    ''biscuit'', ''cracker'', ''chip'', ''crisp'', ''nut'', ''seed'', ''grain'', ''cereal'',
    ''pasta'', ''rice'', ''bean'', ''pea'', ''lentil'', ''chickpea'', ''vegetable'', ''fruit'',
    ''meat'', ''fish'', ''chicken'', ''beef'', ''pork'', ''lamb'', ''turkey'', ''duck'',
    ''seafood'', ''shellfish'', ''crustacean'', ''mollusk'', ''mollusc'', ''egg'', ''dairy'',
    ''vegan'', ''vegetarian'', ''gluten'', ''free'', ''wheat'', ''rye'', ''barley'', ''oat'',
    ''corn'', ''maize'', ''potato'', ''tomato'', ''onion'', ''garlic'', ''ginger'', ''chili'',
    ''chilli'', ''pepper'', ''paprika'', ''cumin'', ''coriander'', ''turmeric'', ''curry'',
    ''masala'', ''tandoori'', ''kebab'', ''shish'', ''shawarma'', ''falafel'', ''hummus'',
    ''tabbouleh'', ''couscous'', ''cous'', ''couscous'', ''quinoa'', ''bulgur'', ''farro'',
    ''spelt'', ''millet'', ''sorghum'', ''teff'', ''amaranth'', ''buckwheat'', ''kamut'',
    ''triticale'', ''durum'', ''semolina'', ''polenta'', ''grits'', ''hominy'', ''cornmeal'',
    ''flour'', ''meal'', ''powder'', ''granule'', ''flake'', ''chip'', ''piece'', ''slice'',
    ''chunk'', ''cube'', ''dice'', ''shred'', ''grate'', ''mince'', ''chop'', ''dice'',
    ''slice'', ''cut'', ''whole'', ''half'', ''quarter'', ''third'', ''fifth'', ''sixth'',
    ''seventh'', ''eighth'', ''ninth'', ''tenth'', ''dozen'', ''pack'', ''bottle'', ''can'',
    ''jar'', ''box'', ''bag'', ''tub'', ''pot'', ''carton'', ''sachet'', ''pouch'', ''wrapper'',
    ''container'', ''package'', ''bundle'', ''set'', ''kit'', ''collection'', ''assortment'',
    ''variety'', ''selection'', ''range'', ''series'', ''line'', ''brand'', ''product'',
    ''item'', ''goods'', ''merchandise'', ''stock'', ''inventory'', ''supply'', ''provision'',
    ''ration'', ''portion'', ''serving'', ''helping'', ''plate'', ''bowl'', ''cup'', ''glass'',
    ''mug'', ''tumbler'', ''bottle'', ''can'', ''jar'', ''box'', ''bag'', ''tub'', ''pot'',
    ''carton'', ''sachet'', ''pouch'', ''wrapper'', ''container'', ''package'', ''bundle'',
    ''set'', ''kit'', ''collection'', ''assortment'', ''variety'', ''selection'', ''range'',
    ''series'', ''line'', ''brand'', ''product'', ''item'', ''goods'', ''merchandise'',
    ''stock'', ''inventory'', ''supply'', ''provision'', ''ration'', ''portion'', ''serving'',
    ''helping'', ''plate'', ''bowl'', ''cup'', ''glass'', ''mug'', ''tumbler''
   ]"

text \<open>
  The first-word quantity test
  \<open>^\d+\.?\d*(g|kg|ml|l|oz|lb|pack|packs|pieces?|items?)$\<close> under IGNORECASE, and the
  leading-dash pattern \<open>^\s*[-...]\s*\<close>, whose class holds the hyphen and the en and
  em dashes; of these only the hyphen lies in the range of the model.
\<close>

definition quantity_word_rx :: rx where
  "quantity_word_rx = Cat [Bol, number_rx, Grp 1 quantity_units_rx, Eol]"

definition leading_dash_rx :: rx where
  "leading_dash_rx = Cat [Bol, Star is_space, Cls (\<lambda>c. c = CHR ''-''), Star is_space]"

text \<open>\<open>_extract_brand_and_product\<close>: the pair (brand, product); no brand is \<open>""\<close>.\<close>

definition extract_brand_and_product :: "string \<Rightarrow> string \<times> string" where
  "extract_brand_and_product product_name =
     (if product_name = [] then ([], [])
      else
        let product_lower = py_lower product_name in
        case find (\<lambda>brand. py_in (py_lower brand) product_lower) known_brands of
          Some brand \<Rightarrow>
            (let brand_lower = py_lower brand;
                 brand_start = py_find product_lower brand_lower;
                 product_part = py_strip (py_slice_from product_name (brand_start + int (length brand)));
                 product_part = re_sub leading_dash_rx [] product_part;
                 product_part = py_strip product_part
             in (brand, product_part))
        | None \<Rightarrow>
            (let words = py_split product_name in
             if 1 < length words then
               (let first_word = hd words in
                if re_match quantity_word_rx first_word \<noteq> None then
                  (if 2 < length words then (words ! 1, py_join '' '' (drop 2 words))
                   else ([], product_name))
                else if py_lower first_word \<in> set common_words then ([], product_name)
                else (hd words, py_join '' '' (tl words)))
             else ([], product_name)))"

definition brand_variations :: "(string \<times> string list) list" where
  "brand_variations =
     [(''alfez'', [''al-fez'', ''al fez'', ''al'fez'']),
      (''al-fez'', [''alfez'', ''al fez'', ''al'fez'']),
      (''al fez'', [''alfez'', ''al-fez'', ''al'fez'']),
      (''al'fez'', [''alfez'', ''al-fez'', ''al fez'']),
      (''dr. oetker'', [''dr oetker'', ''oetker'']),
      (''dr oetker'', [''dr. oetker'', ''oetker'']),
      (''oetker'', [''dr. oetker'', ''dr oetker'']),
      (''sainsburys'', [''sainsbury'']),
      (''sainsbury'', [''sainsburys'']),
      (''wagamama'', [''wagamama'']),
      (''coca cola'', [''coca-cola'']),
      (''coca-cola'', [''coca cola''])]"

text \<open>\<open>_are_brands_similar\<close>.\<close>

definition are_brands_similar :: "string \<Rightarrow> string \<Rightarrow> bool" where
  "are_brands_similar brand1 brand2 =
     (let brand1_lower = py_strip (py_lower brand1);
          brand2_lower = py_strip (py_lower brand2)
      in if brand1_lower = brand2_lower then True
         else list_ex (\<lambda>(main_brand, variations).
                 (brand1_lower = main_brand \<and> brand2_lower \<in> set variations)
                 \<or> (brand2_lower = main_brand \<and> brand1_lower \<in> set variations)
                 \<or> (brand1_lower \<in> set variations \<and> brand2_lower \<in> set variations))
               brand_variations)"

section \<open>The similarity scorer (trolley\_scraper\_fixed.py)\<close>

text \<open>
  The word sets of \<open>_calculate_similarity_improved\<close>: the intersection, extended by
  every pair of different words of which one contains the other, and the union.
\<close>

definition word_intersection :: "string set \<Rightarrow> string set \<Rightarrow> string set" where
  "word_intersection words1 words2 =
     (words1 \<inter> words2) \<union>
     (\<Union>word1\<in>words1. \<Union>word2\<in>words2.
        if word1 \<noteq> word2 \<and> (py_in word1 word2 \<or> py_in word2 word1) then {word1, word2} else {})"

text \<open>
  The bonuses and penalties that depend on the two lower-cased names only, from the
  "Family Pack" bonus to the multipack mismatch penalty, applied in the source's order.
\<close>

definition name_adjustments :: "string \<Rightarrow> string \<Rightarrow> real \<Rightarrow> real" where
  "name_adjustments name1_lower name2_lower j0 =
     (let fp1 = py_in ''family pack'' name1_lower; fp2 = py_in ''family pack'' name2_lower;
          mp1 = is_multipack name1_lower; mp2 = is_multipack name2_lower;
          bb1 = py_in ''baked beans'' name1_lower; bb2 = py_in ''baked beans'' name2_lower;
          bz1 = py_in ''beanz'' name1_lower; bz2 = py_in ''beanz'' name2_lower;
          rsu1 = py_in ''reduced sugar'' name1_lower; rsu2 = py_in ''reduced sugar'' name2_lower;
          rsa1 = py_in ''reduced salt'' name1_lower; rsa2 = py_in ''reduced salt'' name2_lower;
          j = j0;
          j = (if fp1 \<and> fp2 then j + 5 / 10
               else if fp1 \<or> fp2 then (if mp1 \<or> mp2 then j + 3 / 10 else j)
               else j);
          j = (if mp1 \<and> mp2 then j + 4 / 10 else j);
          j = (if (bb1 \<and> bz2) \<or> (bz1 \<and> bb2) then j + 2 / 10 else j);
          j = (if (bb1 \<and> bb2) \<or> (bz1 \<and> bz2) then j + 6 / 10 else j);
          j = (if (rsu1 \<and> rsu2) \<or> (rsa1 \<and> rsa2) then j + 3 / 10
               else if (\<not> rsu1 \<and> \<not> rsa1) \<and> (\<not> rsu2 \<and> \<not> rsa2)
                 then (if bb1 \<and> bb2 then j + 3 / 10 else j)
               else j);
          j = (if (py_in ''chilli black beans'' name1_lower \<and> (bb2 \<or> bz2))
                  \<or> ((bb1 \<or> bz1) \<and> py_in ''chilli black beans'' name2_lower)
               then j - 5 / 10 else j);
          j = (if (py_in ''cream of tomato soup'' name1_lower \<and> (bb2 \<or> bz2))
                  \<or> ((bb1 \<or> bz1) \<and> py_in ''cream of tomato soup'' name2_lower)
               then j - 8 / 10 else j);
          j = (if (py_in ''curry chickpeas'' name1_lower \<and> (bb2 \<or> bz2))
                  \<or> ((bb1 \<or> bz1) \<and> py_in ''curry chickpeas'' name2_lower)
               then j - 9 / 10 else j);
          j = (if (py_in ''chickpeas'' name1_lower \<and> (bb2 \<or> bz2))
                  \<or> ((bb1 \<or> bz1) \<and> py_in ''chickpeas'' name2_lower)
               then j - 8 / 10 else j);
          j = (if (rsu1 \<or> rsa1) \<and> (\<not> rsu2 \<and> \<not> rsa2) then j - 6 / 10
               else if (rsu2 \<or> rsa2) \<and> (\<not> rsu1 \<and> \<not> rsa1) then j - 6 / 10
               else j);
          j = (if mp1 \<and> \<not> mp2 then j - 5 / 10
               else if \<not> mp1 \<and> mp2 then j - 5 / 10
               else j)
      in j)"

text \<open>
  The end of the scorer: the quantity bonus is added and the total clamped
  (\<open>max(0.0, min(1.0, jaccard_similarity))\<close>).
\<close>

definition add_quantity_and_clamp :: "string \<Rightarrow> string \<Rightarrow> real \<Rightarrow> py_error + real" where
  "add_quantity_and_clamp name1 name2 j =
     (case calculate_quantity_similarity name1 name2 of
        Inl e \<Rightarrow> Inl e
      | Inr bonus \<Rightarrow> Inr (max 0 (min 1 (j + bonus))))"

text \<open>\<open>_calculate_similarity_improved\<close>.\<close>

definition calculate_similarity_improved :: "string \<Rightarrow> string \<Rightarrow> py_error + real" where
  "calculate_similarity_improved name1 name2 =
     (let name1_lower = py_lower name1; name2_lower = py_lower name2;
          (brand1, product1) = extract_brand_and_product name1;
          (brand2, product2) = extract_brand_and_product name2;
          product1_clean = clean_product_name_for_comparison product1;
          product2_clean = clean_product_name_for_comparison product2
      in
      if product1_clean = [] \<and> product2_clean = [] then
        (if brand1 \<noteq> [] \<and> brand2 \<noteq> [] \<and> are_brands_similar brand1 brand2
         then Inr (8 / 10) else Inr 0)
      else if product1_clean = [] \<or> product2_clean = [] then
        (if product1_clean = [] \<and> brand1 \<noteq> [] \<and> brand2 \<noteq> [] \<and> are_brands_similar brand1 brand2
         then Inr (6 / 10)
         else if product2_clean = [] \<and> brand1 \<noteq> [] \<and> brand2 \<noteq> []
                 \<and> are_brands_similar brand1 brand2
         then Inr (6 / 10)
         else Inr 0)
      else
        let words1 = set (py_split product1_clean);
            words2 = set (py_split product2_clean)
        in
        if words1 = {} \<or> words2 = {} then Inr 0
        else
          case py_div (real (card (word_intersection words1 words2))) (real (card (words1 \<union> words2))) of
            Inl e \<Rightarrow> Inl e
          | Inr jaccard_similarity \<Rightarrow>
              let j = (if py_in product1_clean product2_clean \<or> py_in product2_clean product1_clean
                       then jaccard_similarity + 2 / 10 else jaccard_similarity);
                  j = name_adjustments name1_lower name2_lower j
              in
              if brand1 \<noteq> [] \<and> brand2 \<noteq> [] then
                (if are_brands_similar brand1 brand2
                 then add_quantity_and_clamp name1 name2 (j + 5 / 10)
                 else Inr 0)
              else if brand1 \<noteq> [] \<or> brand2 \<noteq> [] then
                add_quantity_and_clamp name1 name2 (j * (3 / 10))
              else add_quantity_and_clamp name1 name2 j)"

section \<open>The name normalizer (trolley\_scraper\_fixed.py)\<close>

text \<open>
  \<open>_clean_extracted_name\<close> on a string. The pound sign is \<open>CHR 0xA3\<close>.
\<close>

definition quantity_then_capital :: "string \<Rightarrow> rx" where
  "quantity_then_capital unit = Cat [Grp 1 (Cat [Plus is_digit, Str unit]), Grp 2 (Cls is_upper_az)]"

definition clean_extracted_name :: "string \<Rightarrow> string" where
  "clean_extracted_name name0 =
     (let name = re_sub (Cat [Lit (CHR 0xA3), Star is_space, number_rx]) [] name0;
          name = re_sub (Cat [number_rx, Star is_space, Str ''per'', Star is_space, Str ''100g'']) [] name;
          name = re_sub (Cat [number_rx, Star is_space, Str ''each'']) [] name;
          name = re_sub (quantity_then_capital ''g'') [TGrp 1, TLit '' '', TGrp 2] name;
          name = re_sub (quantity_then_capital ''kg'') [TGrp 1, TLit '' '', TGrp 2] name;
          name = re_sub (quantity_then_capital ''ml'') [TGrp 1, TLit '' '', TGrp 2] name;
          name = re_sub (quantity_then_capital ''l'') [TGrp 1, TLit '' '', TGrp 2] name;
          name = re_sub (Cat [Grp 1 (Cls is_lower_az), Grp 2 (Cls is_upper_az)])
                   [TGrp 1, TLit '' '', TGrp 2] name;
          name = re_sub (Plus is_space) [TLit '' ''] name;
          name = re_sub (Cat [Plus is_digit, Plus is_space, IStr ''more'', Plus is_space, IStr ''size'',
                              Opt (ILit CHR ''s'')]) [] name;
          name = re_sub (Cat [Plus is_digit, Plus is_space, IStr ''more'', Plus is_space, IStr ''size''])
                   [] name;
          name = (if py_in ''415g6Heinz'' name \<and> py_in ''Baked Beans'' name
                    then ''Heinz Baked Beans Family Pack''
                  else if py_in ''400g6Heinz'' name \<and> py_in ''Family Pack'' name
                    then py_replace name ''400g6Heinz'' ''Heinz ''
                  else if py_in ''550g Heinz'' name \<and> py_in ''Family Pack'' name
                    then py_replace name ''550g '' []
                  else name);
          name = (if py_in ''410g4Branston'' name \<and> py_in ''Baked Beans'' name then
                    (let name = py_replace name ''410g4Branston'' ''Branston '' in
                     if py_in ''in Tomato Sauce'' name
                       then ''Branston Baked Beans in Tomato Sauce 4 x 410g''
                     else if py_in ''Reduced Salt and Sugar'' name \<or> py_in ''Reduced Sugar'' name
                       then ''Branston Baked Beans Reduced Salt and Sugar 4 x 410g''
                     else name)
                  else name);
          name = re_sub (Cat [Star is_space, Plus is_digit, Star is_space, Eol]) [] name;
          name = re_sub (Cls (\<lambda>c. \<not> is_word c \<and> \<not> is_space c \<and> c \<noteq> CHR 0x27 \<and> c \<noteq> CHR ''-''))
                   [TLit '' ''] name;
          name = re_sub (Plus is_space) [TLit '' ''] name
      in py_strip name)"

text \<open>
  The argument as a caller may pass it: \<open>None\<close> reaches the first \<open>re.sub\<close>,
  which raises \<open>TypeError\<close> on it.
\<close>

definition clean_extracted_name_arg :: "string option \<Rightarrow> py_error + string" where
  "clean_extracted_name_arg name =
     (case name of None \<Rightarrow> Inl TypeError | Some s \<Rightarrow> Inr (clean_extracted_name s))"

section \<open>Retailer prices (trolley\_scraper\_fixed.py)\<close>













section \<open>Text cleaning and promotional markers (enhanced\_matcher.py)\<close>

definition word_rx :: "string \<Rightarrow> rx" where
  "word_rx w = Cat [Wb, Str w, Wb]"

text \<open>
  The quantity indicator \<open>\b\d+\s*[xX]\b\<close>, whose class holds \<open>x\<close> and the
  multiplication sign \<open>CHR 0xD7\<close>, and the multi-buy offer
  \<open>\b\d+\s*for\s*P?\d+\.?\d*\b\<close> (P the pound sign).
\<close>

definition is_times :: "char \<Rightarrow> bool" where
  "is_times c = (c = CHR ''x'' \<or> c = CHR 0xD7)"

definition quantity_indicator_rx :: rx where
  "quantity_indicator_rx = Cat [Wb, Plus is_digit, Star is_space, Cls is_times, Wb]"

definition multibuy_offer_rx :: rx where
  "multibuy_offer_rx =
     Cat [Wb, Plus is_digit, Star is_space, Str ''for'', Star is_space, Opt (Lit (CHR 0xA3)),
          number_rx, Wb]"

definition remove_phrases :: "rx list" where
  "remove_phrases =
     [quantity_indicator_rx,
      word_rx ''offer'', word_rx ''deal'', word_rx ''special'',
      word_rx ''clubcard'', word_rx ''price'', word_rx ''was'', word_rx ''now'',
      multibuy_offer_rx,
      word_rx ''save'', word_rx ''reduced'', word_rx ''clearance'',
      word_rx ''new'', word_rx ''improved'', word_rx ''formula'']"

definition promotional_phrases :: "rx list" where
  "promotional_phrases =
     [word_rx ''clubcard'', word_rx ''price'', word_rx ''was'', word_rx ''now'',
      word_rx ''offer'', word_rx ''deal'', word_rx ''special'', word_rx ''save'',
      word_rx ''reduced'', word_rx ''clearance'', word_rx ''multibuy'',
      multibuy_offer_rx,
      quantity_indicator_rx]"

text \<open>\<open>clean_product_text\<close> on a string, and on the argument as a caller may pass it.\<close>

definition clean_product_text :: "string \<Rightarrow> string" where
  "clean_product_text text0 =
     (if text0 = [] then []
      else
        let text = py_lower text0;
            text = foldl (\<lambda>t phrase. re_sub phrase [] t) text remove_phrases;
            text = re_sub (Cls (\<lambda>c. \<not> is_word c \<and> \<not> is_space c)) [TLit '' ''] text
        in py_strip (re_sub (Plus is_space) [TLit '' ''] text))"

definition clean_product_text_arg :: "string option \<Rightarrow> string" where
  "clean_product_text_arg text = (case text of None \<Rightarrow> [] | Some s \<Rightarrow> clean_product_text s)"

text \<open>\<open>is_promotional_price\<close>.\<close>

definition is_promotional_price :: "string \<Rightarrow> bool" where
  "is_promotional_price text =
     (if text = [] then False
      else let text_lower = py_lower text
           in list_ex (\<lambda>phrase. re_search phrase text_lower \<noteq> None) promotional_phrases)"

section \<open>Weights and brands (enhanced\_matcher.py)\<close>

text \<open>The number form \<open>\d+(?:\.\d+)?\<close> of the weight patterns.\<close>

definition decimal_rx :: rx where
  "decimal_rx = Cat [Plus is_digit, Opt (Cat [Lit CHR ''.'', Plus is_digit])]"

definition one_of :: "string \<Rightarrow> rx" where
  "one_of cs = Cls (\<lambda>c. c \<in> set cs)"

definition weight_multipack_patterns :: "(rx \<times> string) list" where
  "weight_multipack_patterns =
     [(Cat [Grp 1 (Plus is_digit), Star is_space, Cls is_times, Star is_space, Grp 2 decimal_rx,
            Star is_space, Grp 3 (one_of ''gG'')], ''g''),
      (Cat [Grp 1 (Plus is_digit), Star is_space, Cls is_times, Star is_space, Grp 2 decimal_rx,
            Star is_space, Grp 3 (Cat [one_of ''kK'', one_of ''gG''])], ''kg''),
      (Cat [Grp 1 (Plus is_digit), Star is_space, Cls is_times, Star is_space, Grp 2 decimal_rx,
            Star is_space, Grp 3 (Cat [one_of ''mM'', one_of ''lL''])], ''ml''),
      (Cat [Grp 1 (Plus is_digit), Star is_space, Cls is_times, Star is_space, Grp 2 decimal_rx,
            Star is_space, Grp 3 (one_of ''lL'')], ''l'')]"

definition weight_patterns :: "(rx \<times> string) list" where
  "weight_patterns =
     [(Cat [Grp 1 decimal_rx, Star is_space, one_of ''gG''], ''g''),
      (Cat [Grp 1 decimal_rx, Star is_space, one_of ''kK'', one_of ''gG''], ''kg''),
      (Cat [Grp 1 decimal_rx, Star is_space, one_of ''mM'', one_of ''lL''], ''ml''),
      (Cat [Grp 1 decimal_rx, Star is_space, one_of ''lL''], ''l''),
      (Cat [Grp 1 (Plus is_digit), Star is_space, one_of ''pP'', one_of ''cC''], ''pc''),
      (Cat [Grp 1 (Plus is_digit), Star is_space, Str ''pack''], ''pack''),
      (Cat [Grp 1 (Plus is_digit), Star is_space, one_of ''xX''], ''x'')]"

fun first_search_unit :: "(rx \<times> string) list \<Rightarrow> string \<Rightarrow> (match \<times> string) option" where
  "first_search_unit [] s = None"
| "first_search_unit ((p, unit) # ps) s =
     (case re_search p s of Some m \<Rightarrow> Some (m, unit) | None \<Rightarrow> first_search_unit ps s)"

text \<open>\<open>extract_weight_volume\<close>: the pair (value, unit), \<open>None\<close> for \<open>(None, None)\<close>.\<close>

definition extract_weight_volume :: "string \<Rightarrow> py_error + (real \<times> string) option" where
  "extract_weight_volume text =
     (if text = [] then Inr None
      else
        let text_lower = py_lower text in
        case first_search_unit weight_multipack_patterns text_lower of
          Some (m, unit) \<Rightarrow>
            (case group_float m 1 of
               Inl e \<Rightarrow> Inl e
             | Inr quantity \<Rightarrow>
                 (case group_float m 2 of
                    Inl e \<Rightarrow> Inl e
                  | Inr individual_weight \<Rightarrow> Inr (Some (quantity * individual_weight, unit))))
        | None \<Rightarrow>
            (case first_search_unit weight_patterns text_lower of
               Some (m, unit) \<Rightarrow>
                 (case group_float m 1 of Inl e \<Rightarrow> Inl e | Inr v \<Rightarrow> Inr (Some (v, unit)))
             | None \<Rightarrow> Inr None))"

text \<open>\<open>_convert_to_kg\<close>.\<close>

definition convert_to_kg :: "real \<Rightarrow> string \<Rightarrow> real option" where
  "convert_to_kg v unit =
     (let u = py_lower unit in
      if u = ''g'' then Some (v / 1000)
      else if u = ''kg'' then Some v
      else if u = ''ml'' then Some (v / 1000)
      else if u = ''l'' then Some v
      else None)"

definition brand_patterns :: "rx list" where
  "brand_patterns =
     [Cat [Bol, Grp 1 (Alts [Str ''heinz'', Str ''branston'', Str ''tesco'', Str ''sainsbury'',
                             Str ''asda'', Str ''morrisons'', Str ''ocado'', Str ''co-op'',
                             Str ''aldi'', Str ''lidl'', Str ''waitrose'']), Wb],
      Cat [Bol, Grp 1 (Alts [Str ''nestle'', Str ''kellogg'', Str ''unilever'', Str ''kraft'',
                             Str ''mars'', Str ''cadbury'', Str ''walkers'', Str ''coca-cola'',
                             Str ''pepsi'']), Wb],
      Cat [Bol, Grp 1 (Alts [Str ''dove'', Str ''lynx'', Str ''axe'', Str ''rexona'', Str ''sure'',
                             Str ''nivea'', Str ''garnier'', Str ''loreal'', Str ''maybelline'']), Wb]]"

text \<open>
  \<open>extract_brand_and_product\<close> of the matcher: (brand, product), both optional.
\<close>

definition matcher_brand_and_product :: "string \<Rightarrow> string option \<times> string option" where
  "matcher_brand_and_product product_name =
     (if product_name = [] then (None, None)
      else
        let product_name_lower = py_lower product_name in
        case first_search brand_patterns product_name_lower of
          Some (pattern, m) \<Rightarrow> (group m 1, Some (py_strip (re_sub pattern [] product_name_lower)))
        | None \<Rightarrow> (None, Some product_name_lower))"

definition matcher_brand_variations :: "(string \<times> string list) list" where
  "matcher_brand_variations =
     [(''heinz'', [''heinz'']), (''branston'', [''branston'']), (''tesco'', [''tesco'']),
      (''sainsbury'', [''sainsbury'', ''sainsburys'']), (''asda'', [''asda'']),
      (''morrisons'', [''morrisons'']), (''ocado'', [''ocado''])]"

text \<open>
  The matching functions \<open>fuzz.ratio\<close> and \<open>fuzz.token_set_ratio\<close> belong to the
  library fuzzywuzzy; they are parameters of the model (scores from 0 to 100).
\<close>

type_synonym fuzz_fn = "string \<Rightarrow> string \<Rightarrow> int"

definition is_brand :: "string option \<Rightarrow> bool" where
  "is_brand b = (b \<noteq> None \<and> b \<noteq> Some [])"

definition check_brand_similarity :: "fuzz_fn \<Rightarrow> string \<Rightarrow> string \<Rightarrow> real" where
  "check_brand_similarity fuzz_ratio name1 name2 =
     (let brand1 = fst (matcher_brand_and_product name1);
          brand2 = fst (matcher_brand_and_product name2)
      in if \<not> is_brand brand1 \<or> \<not> is_brand brand2 then 0
         else
           let b1 = py_lower (the brand1); b2 = py_lower (the brand2) in
           if b1 = b2 then 1
           else
             let similarity = real_of_int (fuzz_ratio b1 b2) / 100 in
             if list_ex (\<lambda>(brand, variations). b1 \<in> set variations \<and> b2 \<in> set variations)
                  matcher_brand_variations
             then 1 else similarity)"

definition truthy_weight :: "(real \<times> string) option \<Rightarrow> bool" where
  "truthy_weight w = (case w of None \<Rightarrow> False | Some (v, unit) \<Rightarrow> v \<noteq> 0)"

definition check_weight_similarity :: "string \<Rightarrow> string \<Rightarrow> py_error + real" where
  "check_weight_similarity name1 name2 =
     (case extract_weight_volume name1 of
        Inl e \<Rightarrow> Inl e
      | Inr w1 \<Rightarrow>
     (case extract_weight_volume name2 of
        Inl e \<Rightarrow> Inl e
      | Inr w2 \<Rightarrow>
          if \<not> truthy_weight w1 \<or> \<not> truthy_weight w2 then Inr 0
          else
            (case (convert_to_kg (fst (the w1)) (snd (the w1)),
                   convert_to_kg (fst (the w2)) (snd (the w2))) of
               (Some weight1_kg, Some weight2_kg) \<Rightarrow>
                 if weight1_kg = weight2_kg then Inr 1
                 else (case py_div \<bar>weight1_kg - weight2_kg\<bar> (max weight1_kg weight2_kg) of
                         Inl e \<Rightarrow> Inl e
                       | Inr d \<Rightarrow> if d \<le> 1 / 10 then Inr (8 / 10) else Inr 0)
             | _ \<Rightarrow> Inr 0)))"

definition flavor_indicators :: "string list" where
  "flavor_indicators =
     [''tomato'', ''chicken'', ''beef'', ''vegetable'', ''mushroom'', ''cream'', ''cheese'',
      ''original'', ''classic'', ''traditional'', ''organic'', ''reduced'', ''light'',
      ''sweet'', ''sour'', ''spicy'', ''mild'', ''hot'', ''garlic'', ''herb'', ''basil'',
      ''oregano'', ''thyme'', ''rosemary'', ''lemon'', ''lime'', ''orange'', ''berry'',
      ''strawberry'', ''chocolate'', ''vanilla'', ''caramel'', ''coffee'', ''mint'']"

text \<open>The flavor loop keeps the last indicator of the list that the name contains.\<close>

definition last_flavor :: "string \<Rightarrow> string option" where
  "last_flavor name_lower =
     foldl (\<lambda>found flavor. if py_in flavor name_lower then Some flavor else found) None
       flavor_indicators"

text \<open>\<open>check_same_brand_weight_match\<close>.\<close>

definition check_same_brand_weight_match ::
    "fuzz_fn \<Rightarrow> string \<Rightarrow> string \<Rightarrow> py_error + (bool \<times> real)" where
  "check_same_brand_weight_match fuzz_ratio product1 product2 =
     (let (brand1, product_info1) = matcher_brand_and_product product1;
          (brand2, product_info2) = matcher_brand_and_product product2
      in
      case extract_weight_volume product1 of
        Inl e \<Rightarrow> Inl e
      | Inr w1 \<Rightarrow>
     (case extract_weight_volume product2 of
        Inl e \<Rightarrow> Inl e
      | Inr w2 \<Rightarrow>
          if \<not> is_brand brand1 \<or> \<not> is_brand brand2 then Inr (False, 0)
          else if check_brand_similarity fuzz_ratio product1 product2 < 8 / 10 then Inr (False, 0)
          else
            (case (w1, w2) of
               (Some (weight1, unit1), Some (weight2, unit2)) \<Rightarrow>
                 (case (convert_to_kg weight1 unit1, convert_to_kg weight2 unit2) of
                    (Some weight1_kg, Some weight2_kg) \<Rightarrow>
                      if weight1_kg \<noteq> weight2_kg then Inr (False, 0)
                      else
                        let flavor1 = last_flavor (py_lower product1);
                            flavor2 = last_flavor (py_lower product2)
                        in if flavor1 \<noteq> None \<and> flavor2 \<noteq> None \<and> flavor1 \<noteq> flavor2
                             then Inr (True, 85 / 100)
                           else if product_info1 \<noteq> product_info2 then Inr (True, 75 / 100)
                           else Inr (False, 0)
                  | _ \<Rightarrow> Inr (False, 0))
             | _ \<Rightarrow> Inr (False, 0))))"

section \<open>The match selector (enhanced\_matcher.py)\<close>

text \<open>
  A scraped item is a dictionary; \<open>name\<close> is \<open>item.get('name', '')\<close> and the other
  keys are the rest of the record. \<open>_create_product_match\<close> reads the remaining
  fields of its result (price, unit price, weight, validation issues, retailer, url)
  off the item alone; the result is modelled by the item chosen, the confidence and
  the match type.
\<close>

record scraped_item =
  name :: string

record 'a product_match =
  pm_item :: "'a scraped_item_scheme"
  pm_confidence :: real
  pm_match_type :: string

definition create_product_match ::
    "'a scraped_item_scheme \<Rightarrow> real \<Rightarrow> string \<Rightarrow> 'a product_match" where
  "create_product_match item confidence match_type =
     \<lparr>pm_item = item, pm_confidence = confidence, pm_match_type = match_type\<rparr>"

text \<open>First pass: the exact matches, each with its promotional flag.\<close>

definition exact_matches :: "string \<Rightarrow> 'a scraped_item_scheme list \<Rightarrow> ('a scraped_item_scheme \<times> bool) list" where
  "exact_matches product_name_clean scraped_items =
     map (\<lambda>item. (item, is_promotional_price (name item)))
       (filter (\<lambda>item. name item \<noteq> [] \<and> product_name_clean = clean_product_text (name item))
          scraped_items)"

text \<open>Second pass: the same-brand, same-weight matches (item, confidence, promotional).\<close>

fun same_brand_weight_matches ::
    "fuzz_fn \<Rightarrow> string \<Rightarrow> 'a scraped_item_scheme list
       \<Rightarrow> py_error + ('a scraped_item_scheme \<times> real \<times> bool) list" where
  "same_brand_weight_matches fuzz_ratio product_name [] = Inr []"
| "same_brand_weight_matches fuzz_ratio product_name (item # items) =
     (if name item = [] then same_brand_weight_matches fuzz_ratio product_name items
      else
        case check_same_brand_weight_match fuzz_ratio product_name (name item) of
          Inl e \<Rightarrow> Inl e
        | Inr (is_same_brand_weight, confidence) \<Rightarrow>
            (case same_brand_weight_matches fuzz_ratio product_name items of
               Inl e \<Rightarrow> Inl e
             | Inr found \<Rightarrow>
                 if is_same_brand_weight
                 then Inr ((item, confidence, is_promotional_price (name item)) # found)
                 else Inr found))"

text \<open>
  Third pass: the combined score of an item, from which a promotional item loses
  \<open>promotional_penalty = 0.3\<close>, and the loop, whose state is (best match, highest
  score).
\<close>

definition promotional_penalty :: real where
  "promotional_penalty = 3 / 10"

definition fuzzy_total_score ::
    "fuzz_fn \<Rightarrow> fuzz_fn \<Rightarrow> string \<Rightarrow> string \<Rightarrow> string \<Rightarrow> py_error + real" where
  "fuzzy_total_score fuzz_ratio token_set_ratio product_name product_name_clean item_name =
     (let item_name_clean = clean_product_text item_name;
          similarity = real_of_int (token_set_ratio product_name_clean item_name_clean) / 100;
          brand_match = check_brand_similarity fuzz_ratio product_name item_name
      in
      case check_weight_similarity product_name item_name of
        Inl e \<Rightarrow> Inl e
      | Inr weight_match \<Rightarrow>
          let promotional_adjustment =
                (if is_promotional_price item_name then - promotional_penalty else 0)
          in Inr ((similarity * (6 / 10) + brand_match * (2 / 10) + weight_match * (2 / 10))
                  + promotional_adjustment))"

fun fuzzy_pass ::
    "fuzz_fn \<Rightarrow> fuzz_fn \<Rightarrow> string \<Rightarrow> string \<Rightarrow> real \<Rightarrow> 'a scraped_item_scheme list
       \<Rightarrow> 'a scraped_item_scheme option \<times> real
       \<Rightarrow> py_error + ('a scraped_item_scheme option \<times> real)" where
  "fuzzy_pass fuzz_ratio token_set_ratio product_name product_name_clean threshold [] st = Inr st"
| "fuzzy_pass fuzz_ratio token_set_ratio product_name product_name_clean threshold (item # items)
     (best_match, highest_score) =
     (if name item = []
      then fuzzy_pass fuzz_ratio token_set_ratio product_name product_name_clean threshold items
             (best_match, highest_score)
      else
        case fuzzy_total_score fuzz_ratio token_set_ratio product_name product_name_clean (name item) of
          Inl e \<Rightarrow> Inl e
        | Inr total_score \<Rightarrow>
            if total_score > highest_score \<and> total_score > threshold
            then fuzzy_pass fuzz_ratio token_set_ratio product_name product_name_clean threshold items
                   (Some item, total_score)
            else fuzzy_pass fuzz_ratio token_set_ratio product_name product_name_clean threshold items
                   (best_match, highest_score))"

text \<open>\<open>enhanced_product_match\<close>.\<close>

definition enhanced_product_match ::
    "fuzz_fn \<Rightarrow> fuzz_fn \<Rightarrow> string \<Rightarrow> 'a scraped_item_scheme list \<Rightarrow> real
       \<Rightarrow> py_error + 'a product_match option" where
  "enhanced_product_match fuzz_ratio token_set_ratio product_name scraped_items threshold =
     (if scraped_items = [] then Inr None
      else
        let product_name_clean = clean_product_text product_name;
            exact = exact_matches product_name_clean scraped_items
        in
        if exact \<noteq> [] then
          Inr (Some (create_product_match (fst (hd (sort_key snd exact))) 1 ''exact''))
        else
          case same_brand_weight_matches fuzz_ratio product_name scraped_items of
            Inl e \<Rightarrow> Inl e
          | Inr sbw \<Rightarrow>
              if sbw \<noteq> [] then
                (let best_match = hd (sort_key (\<lambda>(item, confidence, promo). (promo, - confidence)) sbw)
                 in Inr (Some (create_product_match (fst best_match) (fst (snd best_match))
                                 ''same_brand_weight'')))
              else
                (case fuzzy_pass fuzz_ratio token_set_ratio product_name product_name_clean threshold
                        scraped_items (None, 0) of
                   Inl e \<Rightarrow> Inl e
                 | Inr (best_match, highest_score) \<Rightarrow>
                     (case best_match of
                        Some item \<Rightarrow> Inr (Some (create_product_match item highest_score ''fuzzy''))
                      | None \<Rightarrow> Inr None)))"

section \<open>What a pattern accepts\<close>

text \<open>
  \<open>accepts a prev u r\<close>: the pattern \<open>a\<close> matches the text \<open>u\<close> when \<open>prev\<close> is the
  character before it and \<open>r\<close> the text after it. The matcher finds exactly these
  matches (\<open>rmatch_sound\<close>, \<open>rmatch_complete\<close>).
\<close>

fun lastc :: "char option \<Rightarrow> string \<Rightarrow> char option" where
  "lastc prev [] = prev"
| "lastc prev (x # xs) = lastc (Some x) xs"

fun accepts :: "rx \<Rightarrow> char option \<Rightarrow> string \<Rightarrow> string \<Rightarrow> bool" where
  "accepts (Cls p) prev u r = (\<exists>x. u = [x] \<and> p x)"
| "accepts Eps prev u r = (u = [])"
| "accepts (Seq a b) prev u r =
     (\<exists>u1 u2. u = u1 @ u2 \<and> accepts a prev u1 (u2 @ r) \<and> accepts b (lastc prev u1) u2 r)"
| "accepts (Alt a b) prev u r = (accepts a prev u r \<or> accepts b prev u r)"
| "accepts (Star p) prev u r = list_all p u"
| "accepts (LStar p) prev u r = list_all p u"
| "accepts (Grp n a) prev u r = accepts a prev u r"
| "accepts Bol prev u r = (u = [] \<and> prev = None)"
| "accepts Eol prev u r = (u = [] \<and> (r = [] \<or> r = [CHR 0x0A]))"
| "accepts Wb prev u r = (u = [] \<and> word_boundary prev r)"



lemma lastc_append: "lastc prev (u @ v) = lastc (lastc prev u) v"
  by (induction u arbitrary: prev) auto

lemma lastc_snoc: "lastc prev (u @ [x]) = Some x"
  by (simp add: lastc_append)

lemma star_greedy_set:
  "set (star_greedy p prev s) = {(lastc prev u, r) | u r. s = u @ r \<and> list_all p u}"
proof (induction s arbitrary: prev)
  case Nil
  then show ?case by auto
next
  case (Cons x xs)
  show ?case
  proof (rule set_eqI, rule iffI)
    fix z assume z: "z \<in> set (star_greedy p prev (x # xs))"
    show "z \<in> {(lastc prev u, r) | u r. x # xs = u @ r \<and> list_all p u}"
    proof (cases "z = (prev, x # xs)")
      case True
      then have "z = (lastc prev [], x # xs) \<and> x # xs = [] @ (x # xs) \<and> list_all p []" by simp
      then show ?thesis by blast
    next
      case False
      with z have px: "p x" and "z \<in> set (star_greedy p (Some x) xs)"
        by (auto split: if_splits)
      with Cons.IH obtain u r where "z = (lastc (Some x) u, r)" "xs = u @ r" "list_all p u"
        by auto
      with px have "z = (lastc prev (x # u), r) \<and> x # xs = (x # u) @ r \<and> list_all p (x # u)"
        by simp
      then show ?thesis by blast
    qed
  next
    fix z assume "z \<in> {(lastc prev u, r) | u r. x # xs = u @ r \<and> list_all p u}"
    then obtain u r where z: "z = (lastc prev u, r)" and s: "x # xs = u @ r" and a: "list_all p u"
      by auto
    show "z \<in> set (star_greedy p prev (x # xs))"
    proof (cases u)
      case Nil
      with z s show ?thesis by auto
    next
      case (Cons y ys)
      with s a have "y = x" "xs = ys @ r" "p x" "list_all p ys" by auto
      with Cons.IH have "(lastc (Some x) ys, r) \<in> set (star_greedy p (Some x) xs)" by auto
      with z Cons \<open>y = x\<close> \<open>p x\<close> show ?thesis by simp
    qed
  qed
qed

lemma star_lazy_set: "set (star_lazy p prev s) = set (star_greedy p prev s)"
  by (induction s arbitrary: prev) auto

lemma rmatch_sound:
  "(q, r, c') \<in> set (rmatch a (prev, s, c))
   \<Longrightarrow> \<exists>u. s = u @ r \<and> q = lastc prev u \<and> accepts a prev u r"
proof (induction a arbitrary: prev s c q r c')
  case (Cls p)
  then show ?case by (auto split: list.splits if_splits)
next
  case Eps
  then show ?case by auto
next
  case (Seq a b)
  from Seq.prems obtain q1 r1 c1 where
    m1: "(q1, r1, c1) \<in> set (rmatch a (prev, s, c))" and
    m2: "(q, r, c') \<in> set (rmatch b (q1, r1, c1))"
    by auto
  from Seq.IH(1)[OF m1] obtain u1 where
    u1: "s = u1 @ r1" "q1 = lastc prev u1" "accepts a prev u1 r1" by blast
  from Seq.IH(2)[OF m2] obtain u2 where
    u2: "r1 = u2 @ r" "q = lastc q1 u2" "accepts b q1 u2 r" by blast
  from u1 u2 have "s = (u1 @ u2) @ r \<and> q = lastc prev (u1 @ u2) \<and> accepts (Seq a b) prev (u1 @ u2) r"
    by (auto simp: lastc_append)
  then show ?case by blast
next
  case (Alt a b)
  from Alt.prems consider "(q, r, c') \<in> set (rmatch a (prev, s, c))"
    | "(q, r, c') \<in> set (rmatch b (prev, s, c))" by auto
  then show ?case
  proof cases
    case 1
    from Alt.IH(1)[OF 1] show ?thesis by auto
  next
    case 2
    from Alt.IH(2)[OF 2] show ?thesis by auto
  qed
next
  case (Star p)
  then have "(q, r) \<in> set (star_greedy p prev s)" by auto
  then show ?case by (auto simp: star_greedy_set)
next
  case (LStar p)
  then have "(q, r) \<in> set (star_greedy p prev s)" by (auto simp: star_lazy_set)
  then show ?case by (auto simp: star_greedy_set)
next
  case (Grp n a)
  then show ?case by auto
next
  case Bol
  then show ?case by (auto split: if_splits)
next
  case Eol
  then show ?case by (auto split: if_splits)
next
  case Wb
  then show ?case by (auto split: if_splits)
qed

lemma rmatch_complete:
  "accepts a prev u r \<Longrightarrow> \<exists>c'. (lastc prev u, r, c') \<in> set (rmatch a (prev, u @ r, c))"
proof (induction a arbitrary: prev u r c)
  case (Cls p)
  then show ?case by auto
next
  case Eps
  then show ?case by auto
next
  case (Seq a b)
  from Seq.prems obtain u1 u2 where
    u: "u = u1 @ u2" and a1: "accepts a prev u1 (u2 @ r)" and a2: "accepts b (lastc prev u1) u2 r"
    by auto
  from Seq.IH(1)[OF a1] obtain c1 where
    m1: "(lastc prev u1, u2 @ r, c1) \<in> set (rmatch a (prev, u1 @ u2 @ r, c))" by blast
  from Seq.IH(2)[OF a2] obtain c2 where
    m2: "(lastc (lastc prev u1) u2, r, c2) \<in> set (rmatch b (lastc prev u1, u2 @ r, c1))" by blast
  from m1 m2 u have "(lastc prev u, r, c2) \<in> set (rmatch (Seq a b) (prev, u @ r, c))"
    by (auto simp: lastc_append intro!: bexI[of _ "(lastc prev u1, u2 @ r, c1)"])
  then show ?case by blast
next
  case (Alt a b)
  then show ?case by (auto; blast)
next
  case (Star p)
  then have "(lastc prev u, r) \<in> set (star_greedy p prev (u @ r))"
    by (auto simp: star_greedy_set)
  then show ?case by force
next
  case (LStar p)
  then have "(lastc prev u, r) \<in> set (star_lazy p prev (u @ r))"
    by (auto simp: star_greedy_set star_lazy_set)
  then show ?case by force
next
  case (Grp n a)
  from Grp.IH[OF Grp.prems[simplified]] obtain c1 where
    "(lastc prev u, r, c1) \<in> set (rmatch a (prev, u @ r, c))" by blast
  then show ?case by force
next
  case Bol
  then show ?case by auto
next
  case Eol
  then show ?case by auto
next
  case Wb
  then show ?case by auto
qed



section \<open>Searching\<close>


lemma re_search_from_complete:
  "accepts a (lastc prev pre) u r \<Longrightarrow> re_search_from a acc prev (pre @ u @ r) \<noteq> None"
proof (induction pre arbitrary: acc prev)
  case Nil
  from rmatch_complete[OF Nil[simplified]] obtain c' where
    "(lastc prev u, r, c') \<in> set (rmatch a (prev, u @ r, Map.empty))" by blast
  then have "rmatch a (prev, u @ r, Map.empty) \<noteq> []" by auto
  then show ?case by (cases "u @ r") (auto split: list.splits)
next
  case (Cons x pre)
  then have "re_search_from a (x # acc) (Some x) (pre @ u @ r) \<noteq> None" by simp
  then show ?case by (auto split: list.splits)
qed

lemma re_search_complete:
  "accepts a (lastc None pre) u r \<Longrightarrow> re_search a (pre @ u @ r) \<noteq> None"
  unfolding re_search_def by (rule re_search_from_complete)



section \<open>The numbers the patterns capture\<close>




lemma accepts_Plus:
  "accepts (Plus p) prev u r \<longleftrightarrow> u \<noteq> [] \<and> list_all p u"
proof
  assume "accepts (Plus p) prev u r"
  then show "u \<noteq> [] \<and> list_all p u" unfolding Plus_def by auto
next
  assume "u \<noteq> [] \<and> list_all p u"
  then obtain x xs where "u = [x] @ xs" "p x" "list_all p xs" by (cases u) auto
  then show "accepts (Plus p) prev u r" unfolding Plus_def by (simp del: append.simps) blast
qed




section \<open>Quantity extraction never raises\<close>







section \<open>Quantity extraction on examples\<close>











section \<open>The similarity scorer\<close>


lemma word_union_nonempty:
  "set ws1 \<noteq> {} \<Longrightarrow> real (card (set ws1 \<union> set ws2)) \<noteq> 0"
  by (simp add: card_eq_0_iff)

text \<open>
  C1. The brand gate is absolute: when the segmenter gives both names a brand and
  \<open>_are_brands_similar\<close> (equality after lower-casing, or membership of one group of
  the brand-variation table) rejects the pair, the scorer returns exactly 0, whatever
  else the names share. The pair "Kelloggs Corn Flakes 500g", "Tesco Corn Flakes 500g"
  is such a pair.
\<close>

theorem brand_gate_absolute:
  assumes "extract_brand_and_product name1 = (brand1, product1)"
    and "extract_brand_and_product name2 = (brand2, product2)"
    and "brand1 \<noteq> []" and "brand2 \<noteq> []"
    and "\<not> are_brands_similar brand1 brand2"
  shows "calculate_similarity_improved name1 name2 = Inr 0"
proof -
  let ?p1 = "clean_product_name_for_comparison product1"
  let ?p2 = "clean_product_name_for_comparison product2"
  show ?thesis
  proof (cases "?p1 = [] \<or> ?p2 = []")
    case True
    with assms show ?thesis
      by (auto simp: calculate_similarity_improved_def Let_def)
  next
    case False
    show ?thesis
    proof (cases "set (py_split ?p1) = {} \<or> set (py_split ?p2) = {}")
      case True
      with False assms show ?thesis
        by (simp add: calculate_similarity_improved_def Let_def)
    next
      case empty: False
      then have "set (py_split ?p1) \<noteq> {}" by simp
      then have "real (card (set (py_split ?p1) \<union> set (py_split ?p2))) \<noteq> 0"
        by (rule word_union_nonempty)
      with empty False assms show ?thesis
        by (simp add: calculate_similarity_improved_def Let_def py_div_def)
    qed
  qed
qed

lemma kelloggs_brand:
  "extract_brand_and_product ''Kelloggs Corn Flakes 500g'' = (''Kelloggs'', ''Corn Flakes 500g'')"
  by code_simp

lemma tesco_brand:
  "extract_brand_and_product ''Tesco Corn Flakes 500g'' = (''Tesco'', ''Corn Flakes 500g'')"
  by code_simp

lemma kelloggs_tesco_not_similar: "\<not> are_brands_similar ''Kelloggs'' ''Tesco''"
  by code_simp

theorem brand_gate_absolute_witness:
  "extract_brand_and_product ''Kelloggs Corn Flakes 500g'' = (''Kelloggs'', ''Corn Flakes 500g'')
   \<and> extract_brand_and_product ''Tesco Corn Flakes 500g'' = (''Tesco'', ''Corn Flakes 500g'')
   \<and> \<not> are_brands_similar ''Kelloggs'' ''Tesco''
   \<and> calculate_similarity_improved ''Kelloggs Corn Flakes 500g'' ''Tesco Corn Flakes 500g'' = Inr 0"
  using brand_gate_absolute[OF kelloggs_brand tesco_brand _ _ kelloggs_tesco_not_similar]
    kelloggs_brand tesco_brand kelloggs_tesco_not_similar
  by simp




section \<open>The quantity bonus\<close>








section \<open>The segmenter's fallback\<close>

lemma digit_not_upper: "is_digit x \<Longrightarrow> \<not> is_upper x"
proof -
  assume "is_digit x"
  then have le: "x \<le> CHR ''9''" by (simp add: is_digit_def)
  have "x < CHR ''A''" by (rule le_less_trans[OF le]) simp
  moreover have "x < CHR 0xC0" by (rule le_less_trans[OF le]) simp
  moreover have "x < CHR 0xD8" by (rule le_less_trans[OF le]) simp
  ultimately show ?thesis by (auto simp: is_upper_def)
qed

lemma lower_char_digit: "is_digit x \<Longrightarrow> lower_char x = x"
  by (simp add: lower_char_def digit_not_upper)

lemma quantity_word_starts_with_digit:
  assumes "re_match quantity_word_rx w \<noteq> None"
  shows "\<exists>x xs. w = x # xs \<and> is_digit x"
proof -
  from assms obtain st where "st \<in> set (rmatch quantity_word_rx (None, w, Map.empty))"
    by (auto simp: re_match_def split: list.splits)
  moreover obtain q r c' where "st = (q, r, c')" by (cases st)
  ultimately obtain u where u: "w = u @ r" "accepts quantity_word_rx None u r"
    by (blast dest: rmatch_sound)
  from u(2) obtain u1 u2 where "u = u1 @ u2" "u1 \<noteq> []" "list_all is_digit u1"
    unfolding quantity_word_rx_def number_rx_def Cat_def
    by (auto simp: accepts_Plus)
  with u(1) show ?thesis by (cases u1) auto
qed

lemma common_words_no_digit:
  "list_all (\<lambda>w. case w of [] \<Rightarrow> True | x # xs \<Rightarrow> \<not> is_digit x) common_words"
  by code_simp

lemma stop_word_not_quantity:
  assumes "py_lower w \<in> set common_words"
  shows "re_match quantity_word_rx w = None"
proof (rule ccontr)
  assume "re_match quantity_word_rx w \<noteq> None"
  from quantity_word_starts_with_digit[OF this] obtain x xs where w: "w = x # xs" "is_digit x"
    by blast
  then have "py_lower w = x # py_lower xs" by (simp add: py_lower_def lower_char_digit)
  with assms common_words_no_digit w(2) show False
    by (auto simp: list_all_iff)
qed

text \<open>
  C7 (amended). When no lexicon brand is contained in the name, the segmenter looks at
  the first word. If that word is (up to case) in the stop-list, there is no brand and
  the product is the whole name. If it is a quantity token and the name has at most
  two words, there is again no brand and the product is the whole name; if the name
  has three words or more, the second word is taken as the brand and the product is
  the remaining words joined by single spaces.
\<close>

theorem segmenter_fallback:
  assumes "find (\<lambda>brand. py_in (py_lower brand) (py_lower product_name)) known_brands = None"
    and "py_split product_name = first_word # rest"
  shows "(py_lower first_word \<in> set common_words
            \<longrightarrow> extract_brand_and_product product_name = ([], product_name))
    \<and> (re_match quantity_word_rx first_word \<noteq> None \<and> length rest \<le> 1
            \<longrightarrow> extract_brand_and_product product_name = ([], product_name))
    \<and> (re_match quantity_word_rx first_word \<noteq> None \<and> 1 < length rest
            \<longrightarrow> extract_brand_and_product product_name = (hd rest, py_join '' '' (tl rest)))"
proof -
  from assms(2) have ne: "product_name \<noteq> []" by (auto simp: py_split_def)
  have stop: "extract_brand_and_product product_name = ([], product_name)"
    if "py_lower first_word \<in> set common_words"
    using that stop_word_not_quantity[OF that] assms ne
    by (simp add: extract_brand_and_product_def Let_def)
  have short: "extract_brand_and_product product_name = ([], product_name)"
    if "re_match quantity_word_rx first_word \<noteq> None" "length rest \<le> 1"
    using that assms ne
    by (auto simp: extract_brand_and_product_def Let_def)
  have long: "extract_brand_and_product product_name = (hd rest, py_join '' '' (tl rest))"
    if "re_match quantity_word_rx first_word \<noteq> None" "1 < length rest"
    using that assms ne
    by (cases rest) (auto simp: extract_brand_and_product_def Let_def)
  from stop short long show ?thesis by blast
qed

lemma no_brand_in_415g_baked_beans:
  "find (\<lambda>brand. py_in (py_lower brand) (py_lower ''415g Baked Beans'')) known_brands = None"
  by code_simp

lemma split_415g_baked_beans: "py_split ''415g Baked Beans'' = [''415g'', ''Baked'', ''Beans'']"
  by code_simp

lemma quantity_word_415g: "re_match quantity_word_rx ''415g'' \<noteq> None"
  by code_simp

lemma no_brand_in_moroccan_couscous:
  "find (\<lambda>brand. py_in (py_lower brand) (py_lower ''Moroccan Couscous'')) known_brands = None"
  by code_simp

lemma split_moroccan_couscous: "py_split ''Moroccan Couscous'' = [''Moroccan'', ''Couscous'']"
  by code_simp

lemma moroccan_stop_word: "py_lower ''Moroccan'' \<in> set common_words"
  by code_simp

lemma no_brand_in_415g_beans:
  "find (\<lambda>brand. py_in (py_lower brand) (py_lower ''415g Beans'')) known_brands = None"
  by code_simp

lemma split_415g_beans: "py_split ''415g Beans'' = [''415g'', ''Beans'']"
  by code_simp

lemma segment_415g_baked_beans:
  "extract_brand_and_product ''415g Baked Beans'' = (''Baked'', ''Beans'')"
  by code_simp

theorem segmenter_fallback_counterexample:
  "find (\<lambda>brand. py_in (py_lower brand) (py_lower ''415g Baked Beans'')) known_brands = None
   \<and> py_split ''415g Baked Beans'' = [''415g'', ''Baked'', ''Beans'']
   \<and> re_match quantity_word_rx ''415g'' \<noteq> None
   \<and> extract_brand_and_product ''415g Baked Beans'' = (''Baked'', ''Beans'')
   \<and> extract_brand_and_product ''415g Baked Beans'' \<noteq> ([], ''415g Baked Beans'')"
  using no_brand_in_415g_baked_beans split_415g_baked_beans quantity_word_415g
    segment_415g_baked_beans
  by simp

theorem segmenter_fallback_witness:
  "py_lower ''Moroccan'' \<in> set common_words
   \<and> extract_brand_and_product ''Moroccan Couscous'' = ([], ''Moroccan Couscous'')
   \<and> re_match quantity_word_rx ''415g'' \<noteq> None
   \<and> extract_brand_and_product ''415g Beans'' = ([], ''415g Beans'')
   \<and> extract_brand_and_product ''415g Baked Beans'' = (''Baked'', ''Beans'')"
  using segmenter_fallback[OF no_brand_in_moroccan_couscous split_moroccan_couscous]
    segmenter_fallback[OF no_brand_in_415g_beans split_415g_beans]
    segmenter_fallback[OF no_brand_in_415g_baked_beans split_415g_baked_beans]
    moroccan_stop_word quantity_word_415g
  by simp

section \<open>The exact tier of the match selector\<close>

lemma sort_key_Nil_iff: "sort_key f xs = [] \<longleftrightarrow> xs = []"
  by (metis length_sort list.size(3) length_0_conv)

lemma hd_insort_key_flag:
  "hd (insort_key snd x ys) = (if ys = [] \<or> snd x \<le> snd (hd ys) then x else hd ys)"
  by (cases ys) auto

text \<open>
  The stable sort by the promotional flag puts first the first entry that is not
  promotional, and the first entry of all when every entry is promotional.
\<close>

lemma hd_sort_by_flag:
  fixes xs :: "('a \<times> bool) list"
  assumes "xs \<noteq> []"
  shows "hd (sort_key snd xs) = (case find (\<lambda>x. \<not> snd x) xs of Some y \<Rightarrow> y | None \<Rightarrow> hd xs)"
  using assms
proof (induction xs)
  case Nil
  then show ?case by simp
next
  case (Cons x xs)
  show ?case
  proof (cases "xs = []")
    case True
    then show ?thesis by (simp split: option.splits)
  next
    case False
    note IH = Cons.IH[OF False]
    from False have ne: "sort_key snd xs \<noteq> []" by (simp add: sort_key_Nil_iff)
    show ?thesis
    proof (cases "snd x")
      case False
      then show ?thesis using ne by (simp add: hd_insort_key_flag)
    next
      case True
      show ?thesis
      proof (cases "find (\<lambda>x. \<not> snd x) xs")
        case None
        then have "\<forall>y\<in>set xs. snd y" unfolding find_None_iff by blast
        with \<open>xs \<noteq> []\<close> have "snd (hd xs)" by simp
        with None IH True ne show ?thesis by (simp add: hd_insort_key_flag)
      next
        case (Some y)
        then have "\<not> snd y" by (auto simp: find_Some_iff)
        with Some IH True ne show ?thesis by (simp add: hd_insort_key_flag)
      qed
    qed
  qed
qed

definition is_exact :: "string \<Rightarrow> 'a scraped_item_scheme \<Rightarrow> bool" where
  "is_exact product_name item =
     (name item \<noteq> [] \<and> clean_product_text product_name = clean_product_text (name item))"

lemma find_map_flag:
  "find (\<lambda>x. \<not> snd x) (map (\<lambda>item. (item, f item)) xs)
   = map_option (\<lambda>item. (item, f item)) (find (\<lambda>item. \<not> f item) xs)"
  by (induction xs) auto

lemma find_filter: "find P (filter Q xs) = find (\<lambda>x. Q x \<and> P x) xs"
  by (induction xs) auto

lemma find_hd_filter: "filter P xs = y # ys \<Longrightarrow> find P xs = Some y"
  by (induction xs) (auto split: if_splits)

lemma find_SomeD: "find P xs = Some y \<Longrightarrow> y \<in> set xs \<and> P y"
  by (induction xs) (auto split: if_splits)

lemma exact_tier_choice:
  assumes "\<exists>item \<in> set scraped_items. is_exact product_name item"
  shows "enhanced_product_match fuzz_ratio token_set_ratio product_name scraped_items threshold =
     Inr (Some (create_product_match
       (case find (\<lambda>item. is_exact product_name item \<and> \<not> is_promotional_price (name item))
               scraped_items of
          Some item \<Rightarrow> item
        | None \<Rightarrow> the (find (is_exact product_name) scraped_items))
       1 ''exact''))"
proof -
  let ?ex = "exact_matches (clean_product_text product_name) scraped_items"
  let ?fl = "filter (is_exact product_name) scraped_items"
  have ex: "?ex = map (\<lambda>item. (item, is_promotional_price (name item))) ?fl"
    by (simp add: exact_matches_def is_exact_def[abs_def])
  from assms have fl: "?fl \<noteq> []" by (auto simp: filter_empty_conv)
  then have ne: "?ex \<noteq> []" by (simp add: ex)
  from assms have items: "scraped_items \<noteq> []" by auto
  from fl obtain y ys where ys: "?fl = y # ys" by (cases ?fl) auto
  then have "find (is_exact product_name) scraped_items = Some y"
    by (rule find_hd_filter)
  then have first: "the (find (is_exact product_name) scraped_items) = hd ?fl"
    by (simp add: ys)
  have h1: "hd (sort_key snd ?ex) = (case find (\<lambda>x. \<not> snd x) ?ex of Some y \<Rightarrow> y | None \<Rightarrow> hd ?ex)"
    by (rule hd_sort_by_flag[OF ne])
  have h2: "find (\<lambda>x. \<not> snd x) ?ex =
      map_option (\<lambda>item. (item, is_promotional_price (name item)))
        (find (\<lambda>item. is_exact product_name item \<and> \<not> is_promotional_price (name item))
           scraped_items)"
    by (simp add: ex find_map_flag find_filter)
  have h3: "fst (hd ?ex) = hd ?fl"
    using fl by (simp add: ex hd_map)
  have "fst (hd (sort_key snd ?ex)) =
      (case find (\<lambda>item. is_exact product_name item \<and> \<not> is_promotional_price (name item))
              scraped_items of
         Some item \<Rightarrow> item
       | None \<Rightarrow> hd ?fl)"
    unfolding h1 h2 using h3 by (simp split: option.splits)
  with ne items first show ?thesis
    by (simp add: enhanced_product_match_def Let_def split: option.splits)
qed

text \<open>
  C3 (amended). Whenever the candidate list holds a candidate with a non-empty name
  whose cleaned name equals the cleaned query, the selector returns a result of match
  type "exact" with confidence 1. The candidate returned is the first such candidate,
  in list order, whose raw name carries no promotional marker, and the first such
  candidate of all when every one of them is promotional; so a non-promotional exact
  match is always preferred to a promotional one.
\<close>

theorem exact_tier_selection:
  assumes "item \<in> set scraped_items"
    and "name item \<noteq> []"
    and "clean_product_text (name item) = clean_product_text product_name"
  shows "\<exists>m. enhanced_product_match fuzz_ratio token_set_ratio product_name scraped_items threshold
               = Inr (Some m)
    \<and> pm_match_type m = ''exact'' \<and> pm_confidence m = 1
    \<and> pm_item m \<in> set scraped_items \<and> is_exact product_name (pm_item m)
    \<and> pm_item m =
        (case find (\<lambda>c. is_exact product_name c \<and> \<not> is_promotional_price (name c)) scraped_items of
           Some c \<Rightarrow> c
         | None \<Rightarrow> the (find (is_exact product_name) scraped_items))
    \<and> ((\<exists>c \<in> set scraped_items. is_exact product_name c \<and> \<not> is_promotional_price (name c))
         \<longrightarrow> \<not> is_promotional_price (name (pm_item m)))"
proof -
  from assms have ex: "\<exists>item \<in> set scraped_items. is_exact product_name item"
    by (auto simp: is_exact_def)
  let ?c = "case find (\<lambda>c. is_exact product_name c \<and> \<not> is_promotional_price (name c)) scraped_items of
              Some c \<Rightarrow> c
            | None \<Rightarrow> the (find (is_exact product_name) scraped_items)"
  let ?m = "create_product_match ?c 1 ''exact''"
  have res: "enhanced_product_match fuzz_ratio token_set_ratio product_name scraped_items threshold
      = Inr (Some ?m)"
    by (rule exact_tier_choice[OF ex])
  from ex obtain y where y: "find (is_exact product_name) scraped_items = Some y"
    by (cases "find (is_exact product_name) scraped_items") (auto simp: find_None_iff)
  then have y_ok: "y \<in> set scraped_items \<and> is_exact product_name y"
    by (rule find_SomeD)
  have c_ok: "?c \<in> set scraped_items \<and> is_exact product_name ?c"
  proof (cases "find (\<lambda>c. is_exact product_name c \<and> \<not> is_promotional_price (name c)) scraped_items")
    case None
    with y y_ok show ?thesis by simp
  next
    case (Some c)
    from find_SomeD[OF Some] Some show ?thesis by simp
  qed
  have c_pref: "\<not> is_promotional_price (name ?c)"
    if "\<exists>c \<in> set scraped_items. is_exact product_name c \<and> \<not> is_promotional_price (name c)"
  proof (cases "find (\<lambda>c. is_exact product_name c \<and> \<not> is_promotional_price (name c)) scraped_items")
    case None
    with that show ?thesis unfolding find_None_iff by blast
  next
    case (Some c)
    from find_SomeD[OF Some] Some show ?thesis by simp
  qed
  show ?thesis
    by (rule exI[of _ ?m]) (use res c_ok c_pref in \<open>simp add: create_product_match_def\<close>)
qed

lemma clean_heinz_beanz_415g:
  "clean_product_text ''Heinz Beanz 415g'' = ''heinz beanz 415g''"
  by code_simp

lemma clean_heinz_beanz_415g_clubcard:
  "clean_product_text ''Heinz Beanz 415g Clubcard Price'' = ''heinz beanz 415g''"
  by code_simp

lemma plain_not_promotional: "\<not> is_promotional_price ''Heinz Beanz 415g''"
  by code_simp

lemma clubcard_promotional: "is_promotional_price ''Heinz Beanz 415g Clubcard Price''"
  by code_simp

theorem exact_tier_selection_witness:
  "\<exists>m. enhanced_product_match (\<lambda>a b. 0) (\<lambda>a b. 0) ''Heinz Beanz 415g''
          [\<lparr>name = ''Heinz Beanz 415g Clubcard Price''\<rparr>, \<lparr>name = ''Heinz Beanz 415g''\<rparr>] (7 / 10)
        = Inr (Some m)
      \<and> pm_match_type m = ''exact'' \<and> pm_confidence m = 1
      \<and> pm_item m = \<lparr>name = ''Heinz Beanz 415g''\<rparr>"
proof -
  let ?promo = "\<lparr>name = ''Heinz Beanz 415g Clubcard Price''\<rparr>"
  let ?plain = "\<lparr>name = ''Heinz Beanz 415g''\<rparr>"
  have e1: "is_exact ''Heinz Beanz 415g'' ?promo" "is_exact ''Heinz Beanz 415g'' ?plain"
    by (simp_all add: is_exact_def clean_heinz_beanz_415g clean_heinz_beanz_415g_clubcard)
  from exact_tier_selection[of ?plain "[?promo, ?plain]" "''Heinz Beanz 415g''"
      "\<lambda>a b. 0" "\<lambda>a b. 0" "7 / 10"]
  obtain m where m: "enhanced_product_match (\<lambda>a b. 0) (\<lambda>a b. 0) ''Heinz Beanz 415g''
          [?promo, ?plain] (7 / 10) = Inr (Some m)"
      "pm_match_type m = ''exact''" "pm_confidence m = 1"
      "pm_item m =
        (case find (\<lambda>c. is_exact ''Heinz Beanz 415g'' c \<and> \<not> is_promotional_price (name c))
                [?promo, ?plain] of
           Some c \<Rightarrow> c
         | None \<Rightarrow> the (find (is_exact ''Heinz Beanz 415g'') [?promo, ?plain]))"
    by auto
  from m(4) e1 have "pm_item m = ?plain"
    by (simp add: plain_not_promotional clubcard_promotional)
  with m show ?thesis by blast
qed

lemma empty_candidate_no_match:
  "enhanced_product_match (\<lambda>a b. 0) (\<lambda>a b. 0) [] [\<lparr>name = []\<rparr>] (7 / 10) = Inr None"
  by (simp add: enhanced_product_match_def exact_matches_def)

theorem exact_tier_counterexample:
  "\<lparr>name = []\<rparr> \<in> set [\<lparr>name = []\<rparr>]
   \<and> clean_product_text (name \<lparr>name = []\<rparr>) = clean_product_text []
   \<and> enhanced_product_match (\<lambda>a b. 0) (\<lambda>a b. 0) [] [\<lparr>name = []\<rparr>] (7 / 10) = Inr None"
  using empty_candidate_no_match by simp

section \<open>Promotional markers\<close>

lemma accepts_Seq:
  "accepts a prev u1 (u2 @ r) \<Longrightarrow> accepts b (lastc prev u1) u2 r
   \<Longrightarrow> accepts (Seq a b) prev (u1 @ u2) r"
  by auto

lemma lastc_nonempty: "u \<noteq> [] \<Longrightarrow> lastc prev u = Some (last u)"
  by (induction u arbitrary: prev) auto

lemma accepts_Str: "accepts (Str w) prev w r"
proof (induction w arbitrary: prev)
  case Nil
  then show ?case by (simp add: Str_def Cat_def)
next
  case (Cons x w)
  have "accepts (Seq (Lit x) (Str w)) prev ([x] @ w) r"
    by (rule accepts_Seq) (use Cons in \<open>simp_all add: Lit_def\<close>)
  then show ?case by (simp add: Str_def Cat_def)
qed

lemma digit_is_word: "is_digit x \<Longrightarrow> is_word x"
  by (simp add: is_digit_def is_word_def)

text \<open>A word boundary in front of a text, after \<open>pre\<close>.\<close>

lemma boundary_before:
  assumes "pre = [] \<or> \<not> is_word (last pre)" and "is_word x"
  shows "word_boundary (lastc None pre) (x # s)"
  using assms by (cases "pre = []") (auto simp: word_boundary_def lastc_nonempty)

lemma accepts_word_rx:
  assumes "w \<noteq> []" and "is_word (hd w)" and "is_word (last w)"
    and "pre = [] \<or> \<not> is_word (last pre)"
    and "post = [] \<or> \<not> is_word (hd post)"
  shows "accepts (word_rx w) (lastc None pre) w post"
proof -
  from assms(1,2,4) have b1: "word_boundary (lastc None pre) (w @ post)"
    by (cases w) (auto intro: boundary_before)
  from assms(1,3,5) have b2: "word_boundary (lastc (lastc None pre) w) post"
    by (cases post) (auto simp: word_boundary_def lastc_nonempty)
  have "accepts (Seq (Str w) (Seq Wb Eps)) (lastc None pre) (w @ []) post"
    by (rule accepts_Seq) (use b2 in \<open>simp_all add: accepts_Str\<close>)
  then have "accepts (Seq Wb (Seq (Str w) (Seq Wb Eps))) (lastc None pre) ([] @ w) post"
    by (intro accepts_Seq) (use b1 in simp_all)
  then show ?thesis by (simp add: word_rx_def Cat_def)
qed

lemma accepts_quantity_indicator:
  assumes "ds \<noteq> []" and "list_all is_digit ds" and "list_all is_space ws" and "is_times x"
    and "pre = [] \<or> \<not> is_word (last pre)"
    and "word_boundary (Some x) post"
  shows "accepts quantity_indicator_rx (lastc None pre) (ds @ ws @ [x]) post"
proof -
  let ?p0 = "lastc None pre"
  from assms(1,2) obtain d ds' where ds: "ds = d # ds'" "is_digit d" by (cases ds) auto
  then have b1: "word_boundary ?p0 ((ds @ ws @ [x]) @ post)"
    using assms(5) by (auto intro: boundary_before digit_is_word)
  have a5: "accepts (Seq Wb Eps) (Some x) [] post"
    using assms(6) by simp
  have a4: "accepts (Seq (Cls is_times) (Seq Wb Eps)) (lastc (lastc ?p0 ds) ws) ([x] @ []) post"
    by (rule accepts_Seq) (use a5 assms(4) in simp_all)
  have a3: "accepts (Seq (Star is_space) (Seq (Cls is_times) (Seq Wb Eps))) (lastc ?p0 ds)
              (ws @ [x]) post"
    by (rule accepts_Seq) (use a4 assms(3) in simp_all)
  have a2: "accepts (Seq (Plus is_digit) (Seq (Star is_space) (Seq (Cls is_times) (Seq Wb Eps))))
              ?p0 (ds @ ws @ [x]) post"
    by (rule accepts_Seq) (use a3 assms(1,2) in \<open>simp_all add: accepts_Plus\<close>)
  have "accepts (Seq Wb (Seq (Plus is_digit) (Seq (Star is_space)
            (Seq (Cls is_times) (Seq Wb Eps))))) ?p0 ([] @ ds @ ws @ [x]) post"
    by (rule accepts_Seq) (use a2 b1 in simp_all)
  then show ?thesis by (simp add: quantity_indicator_rx_def Cat_def)
qed

lemma promotional_if_phrase:
  assumes "phrase \<in> set promotional_phrases"
    and "py_lower text = pre @ u @ post"
    and "accepts phrase (lastc None pre) u post"
    and "text \<noteq> []"
  shows "is_promotional_price text"
proof -
  from assms(3) have "re_search phrase (pre @ u @ post) \<noteq> None"
    by (rule re_search_complete)
  with assms(1,2,4) show ?thesis
    by (auto simp: is_promotional_price_def list_ex_iff)
qed

lemma promotional_exact_not_chosen:
  assumes "is_promotional_price (name item)"
    and "c \<in> set scraped_items" and "is_exact product_name c"
    and "\<not> is_promotional_price (name c)"
  shows "\<exists>m. enhanced_product_match fuzz_ratio token_set_ratio product_name scraped_items threshold
               = Inr (Some m) \<and> pm_match_type m = ''exact'' \<and> pm_item m \<noteq> item"
proof -
  from assms(2,3) have ex: "\<exists>item \<in> set scraped_items. is_exact product_name item" by blast
  let ?f = "find (\<lambda>item. is_exact product_name item \<and> \<not> is_promotional_price (name item))
              scraped_items"
  from assms(2,3,4) obtain y where y: "?f = Some y"
    by (cases ?f) (auto simp: find_None_iff)
  from find_SomeD[OF y] assms(1) have "y \<noteq> item" by auto
  with exact_tier_choice[OF ex, of fuzz_ratio token_set_ratio threshold] y show ?thesis
    by (simp add: create_product_match_def)
qed

text \<open>
  C10 (amended). The promotional-marker classifier returns True for every name in
  which, after lower-casing, a run of digits that starts at a word boundary is
  followed by optional whitespace and a multiplier sign (\<open>x\<close> or the multiplication
  sign) that itself ends at a word boundary, as in "6 x 415g", and for every name
  that contains "price" as a word of its own. A name so classified loses 0.3 from its
  fuzzy-tier score, and the exact tier does not return it when a non-promotional
  exact candidate is in the list.
\<close>

theorem promotional_markers:
  "(\<forall>text pre ds ws x post.
      py_lower text = pre @ ds @ ws @ [x] @ post
      \<and> ds \<noteq> [] \<and> list_all is_digit ds \<and> list_all is_space ws \<and> is_times x
      \<and> (pre = [] \<or> \<not> is_word (last pre)) \<and> word_boundary (Some x) post
      \<longrightarrow> is_promotional_price text)
   \<and> (\<forall>text pre post.
      py_lower text = pre @ ''price'' @ post
      \<and> (pre = [] \<or> \<not> is_word (last pre)) \<and> (post = [] \<or> \<not> is_word (hd post))
      \<longrightarrow> is_promotional_price text)
   \<and> (\<forall>fuzz_ratio token_set_ratio product_name product_name_clean item_name weight_match.
      is_promotional_price item_name
      \<and> check_weight_similarity product_name item_name = Inr weight_match
      \<longrightarrow> fuzzy_total_score fuzz_ratio token_set_ratio product_name product_name_clean item_name
          = Inr (real_of_int (token_set_ratio product_name_clean (clean_product_text item_name)) / 100
                   * (6 / 10)
                 + check_brand_similarity fuzz_ratio product_name item_name * (2 / 10)
                 + weight_match * (2 / 10) - 3 / 10))
   \<and> (\<forall>fuzz_ratio token_set_ratio product_name threshold
        (scraped_items :: scraped_item list) item c.
      is_promotional_price (name item)
      \<and> c \<in> set scraped_items \<and> is_exact product_name c \<and> \<not> is_promotional_price (name c)
      \<longrightarrow> (\<exists>m. enhanced_product_match fuzz_ratio token_set_ratio product_name scraped_items
                  threshold = Inr (Some m)
               \<and> pm_match_type m = ''exact'' \<and> pm_item m \<noteq> item))"
proof (intro conjI allI impI)
  fix raw pre ds ws x post
  assume h: "py_lower raw = pre @ ds @ ws @ [x] @ post
      \<and> ds \<noteq> [] \<and> list_all is_digit ds \<and> list_all is_space ws \<and> is_times x
      \<and> (pre = [] \<or> \<not> is_word (last pre)) \<and> word_boundary (Some x) post"
  then have "accepts quantity_indicator_rx (lastc None pre) (ds @ ws @ [x]) post"
    by (intro accepts_quantity_indicator) simp_all
  moreover from h have "raw \<noteq> []" by (auto simp: py_lower_def)
  moreover from h have "py_lower raw = pre @ (ds @ ws @ [x]) @ post" by simp
  ultimately show "is_promotional_price raw"
    by (intro promotional_if_phrase[of quantity_indicator_rx raw pre "ds @ ws @ [x]" post])
       (simp_all add: promotional_phrases_def)
next
  fix raw pre post
  assume h: "py_lower raw = pre @ ''price'' @ post
      \<and> (pre = [] \<or> \<not> is_word (last pre)) \<and> (post = [] \<or> \<not> is_word (hd post))"
  have "is_word (hd ''price'')" "is_word (last ''price'')" by (simp_all add: is_word_def)
  with h have "accepts (word_rx ''price'') (lastc None pre) ''price'' post"
    by (intro accepts_word_rx) simp_all
  moreover from h have "raw \<noteq> []" by (auto simp: py_lower_def)
  ultimately show "is_promotional_price raw"
    using h
    by (intro promotional_if_phrase[of "word_rx ''price''" raw pre "''price''" post])
       (simp_all add: promotional_phrases_def)
next
  fix fuzz_ratio token_set_ratio :: fuzz_fn
  fix product_name product_name_clean item_name weight_match
  assume "is_promotional_price item_name
      \<and> check_weight_similarity product_name item_name = Inr weight_match"
  then show "fuzzy_total_score fuzz_ratio token_set_ratio product_name product_name_clean item_name
          = Inr (real_of_int (token_set_ratio product_name_clean (clean_product_text item_name)) / 100
                   * (6 / 10)
                 + check_brand_similarity fuzz_ratio product_name item_name * (2 / 10)
                 + weight_match * (2 / 10) - 3 / 10)"
    by (simp add: fuzzy_total_score_def Let_def promotional_penalty_def)
next
  fix fuzz_ratio token_set_ratio :: fuzz_fn
  fix product_name threshold and scraped_items :: "scraped_item list" and item c :: scraped_item
  assume "is_promotional_price (name item)
      \<and> c \<in> set scraped_items \<and> is_exact product_name c \<and> \<not> is_promotional_price (name c)"
  then have "is_promotional_price (name item)" "c \<in> set scraped_items"
    "is_exact product_name c" "\<not> is_promotional_price (name c)" by simp_all
  then show "\<exists>m. enhanced_product_match fuzz_ratio token_set_ratio product_name scraped_items
                  threshold = Inr (Some m)
               \<and> pm_match_type m = ''exact'' \<and> pm_item m \<noteq> item"
    by (rule promotional_exact_not_chosen)
qed

lemma lower_heinz_beanz_6_x_415g:
  "py_lower ''Heinz Beanz 6 x 415g'' = ''heinz beanz '' @ ''6'' @ '' '' @ [CHR ''x''] @ '' 415g''"
  by code_simp

lemma six_x_conditions:
  "list_all is_digit ''6'' \<and> list_all is_space '' '' \<and> is_times CHR ''x''
   \<and> \<not> is_word (last ''heinz beanz '') \<and> word_boundary (Some CHR ''x'') '' 415g''"
  by code_simp

theorem promotional_markers_witness:
  "py_lower ''Heinz Beanz 6 x 415g'' = ''heinz beanz '' @ ''6'' @ '' '' @ [CHR ''x''] @ '' 415g''
   \<and> list_all is_digit ''6'' \<and> list_all is_space '' '' \<and> is_times CHR ''x''
   \<and> \<not> is_word (last ''heinz beanz '') \<and> word_boundary (Some CHR ''x'') '' 415g''
   \<and> is_promotional_price ''Heinz Beanz 6 x 415g''"
proof -
  note r = conjunct1[OF promotional_markers, rule_format,
      of "''Heinz Beanz 6 x 415g''" "''heinz beanz ''" "''6''" "'' ''" "CHR ''x''" "'' 415g''"]
  from lower_heinz_beanz_6_x_415g six_x_conditions
  have "is_promotional_price ''Heinz Beanz 6 x 415g''"
    by (intro r) simp
  with lower_heinz_beanz_6_x_415g six_x_conditions show ?thesis by simp
qed

lemma no_space_multipack_not_promotional: "\<not> is_promotional_price ''Heinz Beanz 6x415g''"
  by code_simp

lemma six_x_in_name: "py_in ''6x'' ''Heinz Beanz 6x415g''"
  by code_simp

theorem promotional_markers_counterexample:
  "py_in ''6x'' ''Heinz Beanz 6x415g'' \<and> \<not> is_promotional_price ''Heinz Beanz 6x415g''"
  using six_x_in_name no_space_multipack_not_promotional by simp

section \<open>Retailer price probing\<close>






















section \<open>Segmenting a brand followed by a product\<close>

lemma brand_round_trip_all:
  "list_all (\<lambda>b. extract_brand_and_product (b @ '' Widget 100g'')
               = (the (find (\<lambda>c. py_lower c = py_lower b) known_brands), ''Widget 100g''))
     known_brands"
  by code_simp

lemma brand_first_spelling:
  "list_all (\<lambda>b. b = ''ALFEZ'' \<or> b = ''WAGAMAMA''
               \<or> the (find (\<lambda>c. py_lower c = py_lower b) known_brands) = b)
     known_brands"
  by code_simp

text \<open>
  C6 (amended). For every entry \<open>b\<close> of the brand lexicon, segmenting
  \<open>b + " Widget 100g"\<close> gives the product "Widget 100g" and, as brand, the first
  entry of the lexicon that equals \<open>b\<close> up to case. That entry is \<open>b\<close> itself for
  every entry except "ALFEZ" and "WAGAMAMA", which come after "Alfez" and "Wagamama"
  in the lexicon and are returned in that earlier spelling.
\<close>

theorem brand_round_trip:
  "(\<forall>b \<in> set known_brands.
      extract_brand_and_product (b @ '' Widget 100g'')
        = (the (find (\<lambda>c. py_lower c = py_lower b) known_brands), ''Widget 100g''))
   \<and> (\<forall>b \<in> set known_brands.
      b \<noteq> ''ALFEZ'' \<and> b \<noteq> ''WAGAMAMA''
      \<longrightarrow> extract_brand_and_product (b @ '' Widget 100g'') = (b, ''Widget 100g''))"
proof -
  from brand_round_trip_all have a:
    "\<forall>b \<in> set known_brands.
      extract_brand_and_product (b @ '' Widget 100g'')
        = (the (find (\<lambda>c. py_lower c = py_lower b) known_brands), ''Widget 100g'')"
    by (simp only: list_all_iff)
  from brand_first_spelling have b:
    "\<forall>b \<in> set known_brands. b = ''ALFEZ'' \<or> b = ''WAGAMAMA''
        \<or> the (find (\<lambda>c. py_lower c = py_lower b) known_brands) = b"
    by (simp only: list_all_iff)
  from a b show ?thesis by auto
qed

lemma heinz_in_lexicon: "''Heinz'' \<in> set known_brands"
  by code_simp

theorem brand_round_trip_witness:
  "''Heinz'' \<in> set known_brands
   \<and> extract_brand_and_product (''Heinz'' @ '' Widget 100g'') = (''Heinz'', ''Widget 100g'')"
proof -
  have "extract_brand_and_product (''Heinz'' @ '' Widget 100g'') = (''Heinz'', ''Widget 100g'')"
    by (rule conjunct2[OF brand_round_trip, rule_format, OF heinz_in_lexicon]) simp
  with heinz_in_lexicon show ?thesis by (rule_tac conjI)
qed

lemma alfez_in_lexicon: "''ALFEZ'' \<in> set known_brands"
  by code_simp

lemma segment_alfez_widget:
  "extract_brand_and_product (''ALFEZ'' @ '' Widget 100g'') = (''Alfez'', ''Widget 100g'')"
  by code_simp

theorem brand_round_trip_counterexample:
  "''ALFEZ'' \<in> set known_brands
   \<and> extract_brand_and_product (''ALFEZ'' @ '' Widget 100g'') = (''Alfez'', ''Widget 100g'')
   \<and> extract_brand_and_product (''ALFEZ'' @ '' Widget 100g'') \<noteq> (''ALFEZ'', ''Widget 100g'')"
  using alfez_in_lexicon segment_alfez_widget by simp

section \<open>The name normalizers\<close>

text \<open>
  Collapsing whitespace: every maximal run of whitespace becomes one space. This is
  what \<open>re.sub(r'\s+', ' ', s)\<close> computes (\<open>re_sub_collapse\<close>).
\<close>

function collapse :: "string \<Rightarrow> string" where
  "collapse [] = []"
| "collapse (x # xs) =
     (if is_space x then CHR '' '' # collapse (dropWhile is_space xs) else x # collapse xs)"
  by pat_completeness auto
termination
  by (relation "measure length") (auto simp: length_dropWhile_le less_Suc_eq_le)

text \<open>
  A whitespace-collapsed string: each whitespace character is a space and is not
  followed by whitespace. A trimmed string neither starts nor ends with whitespace.
\<close>

fun ws_collapsed :: "string \<Rightarrow> bool" where
  "ws_collapsed [] = True"
| "ws_collapsed [x] = (is_space x \<longrightarrow> x = CHR '' '')"
| "ws_collapsed (x # y # s) = ((is_space x \<longrightarrow> x = CHR '' '' \<and> \<not> is_space y) \<and> ws_collapsed (y # s))"

definition trimmed :: "string \<Rightarrow> bool" where
  "trimmed s = (s = [] \<or> (\<not> is_space (hd s) \<and> \<not> is_space (last s)))"

lemma star_greedy_hd:
  "\<exists>rest. star_greedy p q s = (lastc q (takeWhile p s), dropWhile p s) # rest"
proof (induction s arbitrary: q)
  case Nil
  then show ?case by simp
next
  case (Cons x xs)
  show ?case
  proof (cases "p x")
    case True
    from Cons[of "Some x"] obtain rest where
      "star_greedy p (Some x) xs = (lastc (Some x) (takeWhile p xs), dropWhile p xs) # rest"
      by blast
    with True have "star_greedy p q (x # xs) =
        (lastc q (takeWhile p (x # xs)), dropWhile p (x # xs)) # (rest @ [(q, x # xs)])"
      by simp
    then show ?thesis by (rule exI)
  next
    case False
    then have "star_greedy p q (x # xs) = (lastc q (takeWhile p (x # xs)), dropWhile p (x # xs)) # []"
      by simp
    then show ?thesis by (rule exI)
  qed
qed

lemma rmatch_Plus_none: "\<not> p x \<Longrightarrow> rmatch (Plus p) (prev, x # xs, c) = []"
  by (simp add: Plus_def)

lemma rmatch_Plus_nil: "rmatch (Plus p) (prev, [], c) = []"
  by (simp add: Plus_def)

lemma rmatch_Plus_hd:
  assumes "p x"
  shows "\<exists>rest. rmatch (Plus p) (prev, x # xs, c)
           = (lastc (Some x) (takeWhile p xs), dropWhile p xs, c) # rest"
proof -
  from star_greedy_hd[of p "Some x" xs] obtain rest where
    "star_greedy p (Some x) xs = (lastc (Some x) (takeWhile p xs), dropWhile p xs) # rest" by blast
  with assms have "rmatch (Plus p) (prev, x # xs, c)
      = (lastc (Some x) (takeWhile p xs), dropWhile p xs, c) # map (\<lambda>(q, r). (q, r, c)) rest"
    by (simp add: Plus_def)
  then show ?thesis by (rule exI)
qed

lemma search_no_space:
  "list_all (\<lambda>c. \<not> is_space c) s \<Longrightarrow> re_search_from (Plus is_space) acc prev s = None"
  by (induction s arbitrary: acc prev) (simp_all add: rmatch_Plus_nil rmatch_Plus_none)

lemma search_first_space:
  assumes "list_all (\<lambda>c. \<not> is_space c) u" and "is_space x"
  shows "\<exists>m. re_search_from (Plus is_space) acc prev (u @ x # xs) = Some m
     \<and> m_before m = rev acc @ u \<and> m_whole m \<noteq> [] \<and> m_after m = dropWhile is_space xs"
  using assms(1)
proof (induction u arbitrary: acc prev)
  case Nil
  from rmatch_Plus_hd[of is_space x prev xs Map.empty, OF assms(2)] obtain rest where
    "rmatch (Plus is_space) (prev, x # xs, Map.empty)
       = (lastc (Some x) (takeWhile is_space xs), dropWhile is_space xs, Map.empty) # rest" by blast
  then show ?case
    by (simp add: mk_match_def length_dropWhile_le Suc_diff_le)
next
  case (Cons y u)
  then have u: "list_all (\<lambda>c. \<not> is_space c) u" and ny: "\<not> is_space y" by simp_all
  from ny have none: "rmatch (Plus is_space) (prev, y # u @ x # xs, Map.empty) = []"
    by (rule rmatch_Plus_none)
  from Cons.IH[OF u, of "y # acc" "Some y"] obtain m where
    m: "re_search_from (Plus is_space) (y # acc) (Some y) (u @ x # xs) = Some m"
    "m_before m = rev (y # acc) @ u" "m_whole m \<noteq> []" "m_after m = dropWhile is_space xs"
    by blast
  show ?case
    by (rule exI[of _ m]) (use m none in simp)
qed

lemma collapse_no_space: "list_all (\<lambda>c. \<not> is_space c) s \<Longrightarrow> collapse s = s"
  by (induction s) auto

lemma collapse_first_space:
  "list_all (\<lambda>c. \<not> is_space c) u \<Longrightarrow> is_space x
   \<Longrightarrow> collapse (u @ x # xs) = u @ CHR '' '' # collapse (dropWhile is_space xs)"
  by (induction u) auto

lemma split_at_space:
  "list_all (\<lambda>c. \<not> is_space c) s
   \<or> (\<exists>u x xs. s = u @ x # xs \<and> list_all (\<lambda>c. \<not> is_space c) u \<and> is_space x)"
proof (induction s)
  case Nil
  then show ?case by simp
next
  case (Cons y s)
  show ?case
  proof (cases "is_space y")
    case True
    then have "y # s = [] @ y # s \<and> list_all (\<lambda>c. \<not> is_space c) [] \<and> is_space y" by simp
    then show ?thesis by blast
  next
    case False
    from Cons show ?thesis
    proof
      assume "list_all (\<lambda>c. \<not> is_space c) s"
      with False show ?thesis by simp
    next
      assume "\<exists>u x xs. s = u @ x # xs \<and> list_all (\<lambda>c. \<not> is_space c) u \<and> is_space x"
      then obtain u x xs where "s = u @ x # xs" "list_all (\<lambda>c. \<not> is_space c) u" "is_space x"
        by blast
      with False have "y # s = (y # u) @ x # xs \<and> list_all (\<lambda>c. \<not> is_space c) (y # u) \<and> is_space x"
        by simp
      then show ?thesis by blast
    qed
  qed
qed

lemma re_sub_from_collapse:
  "re_sub_from (Plus is_space) [TLit '' ''] prev s = collapse s"
proof (induction "length s" arbitrary: s prev rule: less_induct)
  case less
  from split_at_space[of s] show ?case
  proof
    assume ns: "list_all (\<lambda>c. \<not> is_space c) s"
    then have "re_search_from (Plus is_space) [] prev s = None" by (rule search_no_space)
    then have "re_sub_from (Plus is_space) [TLit '' ''] prev s = s"
      by (subst re_sub_from.simps) simp
    with ns show ?thesis by (simp add: collapse_no_space)
  next
    assume "\<exists>u x xs. s = u @ x # xs \<and> list_all (\<lambda>c. \<not> is_space c) u \<and> is_space x"
    then obtain u x xs where s: "s = u @ x # xs" and u: "list_all (\<lambda>c. \<not> is_space c) u"
      and x: "is_space x" by blast
    from search_first_space[OF u x, of "[]" prev xs] obtain m where
      m: "re_search_from (Plus is_space) [] prev (u @ x # xs) = Some m"
      "m_before m = u" "m_whole m \<noteq> []" "m_after m = dropWhile is_space xs" by auto
    have len: "length (dropWhile is_space xs) < length s"
      using s by (simp add: length_dropWhile_le less_Suc_eq_le trans_le_add2)
    have "re_sub_from (Plus is_space) [TLit '' ''] prev s =
        u @ '' '' @ re_sub_from (Plus is_space) [TLit '' ''] (m_prev m) (dropWhile is_space xs)"
      using m len s by (subst re_sub_from.simps) (simp add: expand_def)
    also have "re_sub_from (Plus is_space) [TLit '' ''] (m_prev m) (dropWhile is_space xs)
        = collapse (dropWhile is_space xs)"
      by (rule less.hyps[OF len])
    finally show ?thesis using s u x by (simp add: collapse_first_space)
  qed
qed

lemma re_sub_collapse: "re_sub (Plus is_space) [TLit '' ''] s = collapse s"
  by (simp only: re_sub_def re_sub_from_collapse)

lemma ws_collapsed_Cons:
  "ws_collapsed (x # s) \<longleftrightarrow>
     (is_space x \<longrightarrow> x = CHR '' '' \<and> (s = [] \<or> \<not> is_space (hd s))) \<and> ws_collapsed s"
  by (cases s) auto

lemma collapse_hd_space:
  "collapse s = [] \<or> \<not> is_space (hd (collapse s)) \<or> (s \<noteq> [] \<and> is_space (hd s))"
  by (cases s) auto

lemma ws_collapsed_collapse: "ws_collapsed (collapse s)"
proof (induction s rule: collapse.induct)
  case 1
  then show ?case by simp
next
  case (2 x xs)
  show ?case
  proof (cases "is_space x")
    case True
    have "dropWhile is_space xs = [] \<or> \<not> is_space (hd (dropWhile is_space xs))"
      using hd_dropWhile[of is_space xs] by blast
    with collapse_hd_space[of "dropWhile is_space xs"]
    have "collapse (dropWhile is_space xs) = [] \<or> \<not> is_space (hd (collapse (dropWhile is_space xs)))"
      by auto
    with True 2 show ?thesis by (simp add: ws_collapsed_Cons)
  next
    case False
    with 2 show ?thesis by (simp add: ws_collapsed_Cons)
  qed
qed

lemma ws_collapsed_suffix: "ws_collapsed (u @ v) \<Longrightarrow> ws_collapsed v"
  by (induction u) (auto simp: ws_collapsed_Cons)

lemma ws_collapsed_prefix: "ws_collapsed (u @ v) \<Longrightarrow> ws_collapsed u"
proof (induction u)
  case Nil
  then show ?case by simp
next
  case (Cons x u)
  then show ?case by (cases u) (auto simp: ws_collapsed_Cons)
qed

lemma rev_dropWhile_split: "t = rev (dropWhile P (rev t)) @ rev (takeWhile P (rev t))"
proof -
  have "rev (rev (dropWhile P (rev t)) @ rev (takeWhile P (rev t)))
      = takeWhile P (rev t) @ dropWhile P (rev t)"
    by (simp only: rev_append rev_rev_ident)
  also have "\<dots> = rev t" by (rule takeWhile_dropWhile_id)
  finally have "rev (rev (dropWhile P (rev t)) @ rev (takeWhile P (rev t))) = rev t" .
  then show ?thesis by (simp only: rev_is_rev_conv)
qed

lemma strip_tail:
  "dropWhile is_space s = py_strip s @ rev (takeWhile is_space (rev (dropWhile is_space s)))"
  unfolding py_strip_def by (rule rev_dropWhile_split)

lemma strip_decomposition:
  "\<exists>u v. s = u @ py_strip s @ v"
proof -
  have "s = takeWhile is_space s @ dropWhile is_space s" by simp
  also note strip_tail
  finally show ?thesis by blast
qed

lemma ws_collapsed_strip: "ws_collapsed s \<Longrightarrow> ws_collapsed (py_strip s)"
proof -
  assume c: "ws_collapsed s"
  from strip_decomposition[of s] obtain u v where s: "s = u @ py_strip s @ v" by blast
  with c have "ws_collapsed (u @ py_strip s @ v)" by simp
  then have "ws_collapsed (py_strip s @ v)" by (rule ws_collapsed_suffix)
  then show ?thesis by (rule ws_collapsed_prefix)
qed

lemma trimmed_strip: "trimmed (py_strip s)"
proof (cases "py_strip s = []")
  case True
  then show ?thesis by (simp add: trimmed_def)
next
  case False
  let ?t = "dropWhile is_space s"
  let ?d = "dropWhile is_space (rev ?t)"
  from False have d: "?d \<noteq> []" by (simp add: py_strip_def)
  then have "\<not> is_space (hd ?d)" by (rule hd_dropWhile)
  with d have l: "\<not> is_space (last (py_strip s))" by (simp add: py_strip_def last_rev)
  from d have "rev ?t \<noteq> []" by (metis dropWhile.simps(1))
  then have t: "?t \<noteq> []" by (simp only: rev_is_Nil_conv not_False_eq_True)
  then have ht: "\<not> is_space (hd ?t)" by (rule hd_dropWhile)
  have "?t = py_strip s @ rev (takeWhile is_space (rev ?t))"
    by (rule strip_tail)
  with False have "hd ?t = hd (py_strip s)" by (metis hd_append2)
  with ht l False show ?thesis by (simp add: trimmed_def)
qed

lemma clean_empty_name: "clean_extracted_name [] = []"
  by code_simp

lemma type_error_on_none: "clean_extracted_name_arg None = Inl TypeError"
  by (simp add: clean_extracted_name_arg_def)

text \<open>
  C8 (amended). On every string the normalizers return without raising: the scraped-name
  normalizer \<open>_clean_extracted_name\<close> and the product-text normalizer
  \<open>clean_product_text\<close> both return the empty string for the empty string, and for
  every string a whitespace-collapsed, trimmed string. \<open>clean_product_text\<close> also
  returns the empty string for \<open>None\<close>.
\<close>

theorem name_normalizer_total:
  "clean_extracted_name_arg (Some s) = Inr (clean_extracted_name s)
   \<and> clean_extracted_name [] = []
   \<and> clean_product_text [] = []
   \<and> clean_product_text_arg None = []
   \<and> clean_product_text_arg (Some s) = clean_product_text s
   \<and> ws_collapsed (clean_extracted_name s) \<and> trimmed (clean_extracted_name s)
   \<and> ws_collapsed (clean_product_text s) \<and> trimmed (clean_product_text s)"
proof -
  have a: "ws_collapsed (clean_extracted_name s)" "trimmed (clean_extracted_name s)"
    unfolding clean_extracted_name_def Let_def re_sub_collapse
    by (rule ws_collapsed_strip, rule ws_collapsed_collapse, rule trimmed_strip)
  have b: "ws_collapsed (clean_product_text s) \<and> trimmed (clean_product_text s)"
  proof (cases "s = []")
    case True
    then show ?thesis by (simp add: clean_product_text_def trimmed_def)
  next
    case False
    then obtain t where "clean_product_text s = py_strip (collapse t)"
      by (simp add: clean_product_text_def Let_def re_sub_collapse)
    then show ?thesis
      by (simp only: ws_collapsed_strip[OF ws_collapsed_collapse] trimmed_strip simp_thms)
  qed
  from a b clean_empty_name show ?thesis
    by (simp add: clean_extracted_name_arg_def clean_product_text_arg_def clean_product_text_def)
qed

lemma clean_concatenated_name:
  "clean_extracted_name ''200gAl'Fez   Moroccan Couscous 3 more sizes''
     = ''200g Al'Fez Moroccan Couscous''"
  by code_simp

lemma cleaned_name_normal:
  "ws_collapsed ''200g Al'Fez Moroccan Couscous'' \<and> trimmed ''200g Al'Fez Moroccan Couscous''"
  by code_simp

theorem name_normalizer_total_witness:
  "clean_extracted_name_arg (Some ''200gAl'Fez   Moroccan Couscous 3 more sizes'')
     = Inr ''200g Al'Fez Moroccan Couscous''
   \<and> ws_collapsed ''200g Al'Fez Moroccan Couscous'' \<and> trimmed ''200g Al'Fez Moroccan Couscous''"
  using name_normalizer_total[of "''200gAl'Fez   Moroccan Couscous 3 more sizes''"]
    clean_concatenated_name
  by simp

theorem name_normalizer_counterexample:
  "clean_extracted_name_arg None = Inl TypeError \<and> clean_extracted_name_arg None \<noteq> Inr []"
  using type_error_on_none by simp

end
